theory Spec2Isabelle
  imports Complex_Main "HOL-Library.Char_ord" "HOL-Library.List_Lexorder"
begin

section \<open>GeoMath: the distance helpers of routes/location.js\<close>

text \<open>
  The functions of this section are the formulas of the code in exact real arithmetic.
  The code evaluates them in IEEE doubles, and the difference shows near antipodal points:
  there the exact \<open>a\<close> of \<open>calculateDistance\<close> is 1 or just below it, a double
  evaluation can yield a value above 1, and \<open>Math.sqrt(1 - a)\<close> is then \<open>NaN\<close>.
  \<open>distance_from_a\<close> below is the part of the function that follows the computation
  of \<open>a\<close>, with that case in it.
\<close>

definition toRad :: "real \<Rightarrow> real" where
  "toRad degrees = degrees * (pi / 180)"

text \<open>\<open>Math.atan2(y, x)\<close>: the angle of the point \<open>(x, y)\<close>, in \<open>(-\<pi>, \<pi>]\<close>.\<close>

definition atan2 :: "real \<Rightarrow> real \<Rightarrow> real" where
  "atan2 y x =
     (if 0 < x then arctan (y / x)
      else if x < 0 then (if 0 \<le> y then arctan (y / x) + pi else arctan (y / x) - pi)
      else if 0 < y then pi / 2
      else if y < 0 then - (pi / 2)
      else 0)"

text \<open>The value \<open>a\<close> of \<open>calculateDistance\<close>: the haversine of the central angle.\<close>

definition haversine_a :: "real \<Rightarrow> real \<Rightarrow> real \<Rightarrow> real \<Rightarrow> real" where
  "haversine_a lat1 lon1 lat2 lon2 =
     (let dLat = toRad (lat2 - lat1);
          dLon = toRad (lon2 - lon1)
      in sin (dLat / 2) * sin (dLat / 2) +
         cos (toRad lat1) * cos (toRad lat2) * sin (dLon / 2) * sin (dLon / 2))"

definition calculateDistance :: "real \<Rightarrow> real \<Rightarrow> real \<Rightarrow> real \<Rightarrow> real" where
  "calculateDistance lat1 lon1 lat2 lon2 =
     (let R = 6371;
          a = haversine_a lat1 lon1 lat2 lon2;
          c = 2 * atan2 (sqrt a) (sqrt (1 - a))
      in R * c)"

section \<open>JavaScript values and built-ins used by the handlers\<close>

text \<open>
  A field of a JSON request body is absent or a number (\<open>real option\<close>); a query-string
  parameter is absent or a string (\<open>string option\<close>), as Express delivers \<open>req.query\<close>.
  \<open>!v\<close> is the negation of the truthiness below.
\<close>

definition truthy_num :: "real option \<Rightarrow> bool" where
  "truthy_num v = (case v of None \<Rightarrow> False | Some x \<Rightarrow> x \<noteq> 0)"

definition truthy_str :: "string option \<Rightarrow> bool" where
  "truthy_str v = (case v of None \<Rightarrow> False | Some s \<Rightarrow> s \<noteq> [])"

text \<open>The result of a numeric built-in: a finite number, an infinity or \<open>NaN\<close>.\<close>

datatype jsnum = Fin real | PosInf | NegInf | NaN

definition truthy_jsnum :: "jsnum \<Rightarrow> bool" where
  "truthy_jsnum v = (case v of Fin x \<Rightarrow> x \<noteq> 0 | PosInf \<Rightarrow> True | NegInf \<Rightarrow> True | NaN \<Rightarrow> False)"

definition jsnum_neg :: "jsnum \<Rightarrow> jsnum" where
  "jsnum_neg v = (case v of Fin x \<Rightarrow> Fin (- x) | PosInf \<Rightarrow> NegInf | NegInf \<Rightarrow> PosInf | NaN \<Rightarrow> NaN)"

text \<open>\<open>v * k\<close> for a positive finite constant \<open>k\<close>.\<close>

definition jsnum_scale :: "jsnum \<Rightarrow> real \<Rightarrow> jsnum" where
  "jsnum_scale v k = (case v of Fin x \<Rightarrow> Fin (x * k) | PosInf \<Rightarrow> PosInf | NegInf \<Rightarrow> NegInf | NaN \<Rightarrow> NaN)"

text \<open>
  The last two lines of \<open>calculateDistance\<close> for a computed value \<open>a\<close>:
  \<open>Math.sqrt\<close> of a negative number is \<open>NaN\<close>, and \<open>NaN\<close> passes through
  \<open>Math.atan2\<close> and the two multiplications.
\<close>

definition distance_from_a :: "real \<Rightarrow> jsnum" where
  "distance_from_a a =
     (if a < 0 \<or> 1 < a then NaN
      else Fin (6371 * (2 * atan2 (sqrt a) (sqrt (1 - a)))))"

definition is_space :: "char \<Rightarrow> bool" where
  "is_space c = (of_char c \<in> {9, 10, 11, 12, 13, 32 :: nat})"

definition is_digit :: "char \<Rightarrow> bool" where
  "is_digit c = (48 \<le> (of_char c :: nat) \<and> (of_char c :: nat) \<le> 57)"

definition digit_val :: "char \<Rightarrow> nat" where
  "digit_val c = of_char c - 48"

fun digits_val :: "nat \<Rightarrow> string \<Rightarrow> nat" where
  "digits_val acc [] = acc"
| "digits_val acc (c # cs) = digits_val (acc * 10 + digit_val c) cs"

definition parse_exponent :: "string \<Rightarrow> int" where
  "parse_exponent rest =
     (case rest of
        [] \<Rightarrow> 0
      | c # r \<Rightarrow>
          if c = CHR ''e'' \<or> c = CHR ''E'' then
            (let sg = (case r of [] \<Rightarrow> 1 | d # _ \<Rightarrow> if d = CHR ''-'' then - 1 else 1);
                 r' = (case r of [] \<Rightarrow> [] | d # t \<Rightarrow> if d = CHR ''-'' \<or> d = CHR ''+'' then t else r);
                 ds = takeWhile is_digit r'
             in if ds = [] then 0 else sg * int (digits_val 0 ds))
          else 0)"

definition scale10 :: "real \<Rightarrow> int \<Rightarrow> real" where
  "scale10 m e = (if 0 \<le> e then m * 10 ^ nat e else m / 10 ^ nat (- e))"

text \<open>The longest prefix that is a decimal literal, without its sign.\<close>

definition parse_unsigned :: "string \<Rightarrow> jsnum" where
  "parse_unsigned s =
     (if take 8 s = ''Infinity'' then PosInf
      else
        let ip = takeWhile is_digit s;
            r = dropWhile is_digit s;
            dot = (case r of [] \<Rightarrow> False | c # _ \<Rightarrow> c = CHR ''.'');
            fp = (if dot then takeWhile is_digit (tl r) else []);
            r2 = (if dot then dropWhile is_digit (tl r) else r)
        in if ip = [] \<and> fp = [] then NaN
           else Fin (scale10 (real (digits_val 0 ip) + real (digits_val 0 fp) / 10 ^ length fp)
                       (parse_exponent r2)))"

text \<open>
  \<open>parseFloat\<close> of a string: leading white space is skipped, then a sign, then the longest
  decimal literal; \<open>NaN\<close> when there is none. The value is the exact decimal value.
\<close>

definition parseFloat :: "string \<Rightarrow> jsnum" where
  "parseFloat s =
     (let t = dropWhile is_space s
      in case t of
           [] \<Rightarrow> NaN
         | c # r \<Rightarrow>
             if c = CHR ''-'' then jsnum_neg (parse_unsigned r)
             else if c = CHR ''+'' then parse_unsigned r
             else parse_unsigned t)"

text \<open>\<open>parseFloat(v)\<close> of a query parameter; \<open>undefined\<close> gives \<open>NaN\<close>.\<close>

definition parseFloat_param :: "string option \<Rightarrow> jsnum" where
  "parseFloat_param v = (case v of None \<Rightarrow> NaN | Some s \<Rightarrow> parseFloat s)"





text \<open>
  \<open>parseFloat(x.toFixed(2))\<close>: the multiple of 0.01 nearest to \<open>x\<close>, the larger magnitude
  on a tie; from \<open>10^21\<close> on \<open>toFixed\<close> prints the number itself.
\<close>

definition toFixed2 :: "real \<Rightarrow> real" where
  "toFixed2 x =
     (if 10 ^ 21 \<le> \<bar>x\<bar> then x
      else if x < 0 then - (of_int \<lfloor>- x * 100 + 1 / 2\<rfloor> / 100)
      else of_int \<lfloor>x * 100 + 1 / 2\<rfloor> / 100)"

text \<open>The store's \<open>$round: [x, 2]\<close>: nearest multiple of 0.01, ties to the even digit.\<close>

definition round2 :: "real \<Rightarrow> real" where
  "round2 x =
     (let y = x * 100;
          f = \<lfloor>y\<rfloor>;
          r = y - of_int f
      in if r < 1 / 2 then of_int f / 100
         else if 1 / 2 < r then of_int (f + 1) / 100
         else if even f then of_int f / 100
         else of_int (f + 1) / 100)"

section \<open>The document store\<close>

text \<open>
  The store is MongoDB behind Mongoose, an external collaborator of the routes. What it
  answers to a query is modelled from the documented meaning of the query operators the
  routes use; its failures and the distance of its spatial index are parameters.
\<close>

text \<open>
  Modelled from the spec: the Mongoose schemas \<open>models/Shop.js\<close>,
  \<open>models/Product.js\<close> and \<open>models/Order.js\<close> are not among the sources. The
  records carry the fields the routes read and write, with the types of the spec's data
  model. \<open>coordinates\<close> is the GeoJSON pair \<open>[longitude, latitude]\<close> of
  \<open>location\<close>.
\<close>

type_synonym point = "real \<times> real"

record shop =
  shop_id :: string
  ownerId :: string
  shop_name :: string
  isOpen :: bool
  isActive :: bool
  isApproved :: bool
  coordinates :: point
  deliveryRadius :: real
  locationSet :: bool
  totalRevenue :: "real option"

record product =
  p_shopId :: string
  category :: string
  isAvailable :: bool

record order =
  o_shopId :: string
  status :: string
  totalAmount :: real
  createdAt :: int

text \<open>
  Every call a handler issues to the store. Times are milliseconds since the epoch;
  a distance bound is in metres.
\<close>

datatype store_call =
    UpdateLocation string point real
  | FindNear "jsnum \<times> jsnum" jsnum
  | GeoNear "jsnum \<times> jsnum" "jsnum option"
  | FindShopByOwner string
  | CountProducts string "bool option"
  | CountOrders string "string option" "int option"
  | SumCompleted string int
  | DailyAggregate string "int option"
  | CategoryAggregate string

text \<open>
  The store: its collections, the distance in metres that its 2dsphere index assigns to
  two points, and the calls it fails (connection loss, time-out, missing index, schema
  validation), each with the message of the error it raises.
\<close>

record store =
  shops :: "shop list"
  products :: "product list"
  orders :: "order list"
  sdist :: "point \<Rightarrow> point \<Rightarrow> real"
  fails :: "store_call \<Rightarrow> string option"

definition geo_in_bounds :: "point \<Rightarrow> bool" where
  "geo_in_bounds p = (- 180 \<le> fst p \<and> fst p \<le> 180 \<and> - 90 \<le> snd p \<and> snd p \<le> 90)"

text \<open>A query point is accepted by the store when it is finite and a valid GeoJSON position.\<close>

definition geo_point :: "jsnum \<times> jsnum \<Rightarrow> point option" where
  "geo_point p =
     (case p of
        (Fin lon, Fin lat) \<Rightarrow> if geo_in_bounds (lon, lat) then Some (lon, lat) else None
      | _ \<Rightarrow> None)"

text \<open>A distance bound is accepted when it is a non-negative number; \<open>Some None\<close> is no bound.\<close>

definition geo_limit :: "jsnum \<Rightarrow> real option option" where
  "geo_limit m =
     (case m of
        Fin x \<Rightarrow> if 0 \<le> x then Some (Some x) else None
      | PosInf \<Rightarrow> Some None
      | _ \<Rightarrow> None)"

definition within_limit :: "real option \<Rightarrow> real \<Rightarrow> bool" where
  "within_limit bnd d = (case bnd of None \<Rightarrow> True | Some m \<Rightarrow> d \<le> m)"

text \<open>
  What \<open>$near\<close> and \<open>$geoNear\<close> select with the filter
  \<open>{isActive: true, isApproved: true}\<close>: the matching shops within the bound, nearest first.
\<close>

definition geo_candidates :: "store \<Rightarrow> point \<Rightarrow> real option \<Rightarrow> shop list" where
  "geo_candidates st origin bnd =
     sort_key (\<lambda>s. sdist st origin (coordinates s))
       (filter (\<lambda>s. isActive s \<and> isApproved s \<and> within_limit bnd (sdist st origin (coordinates s)))
          (shops st))"

definition invalid_geo_query :: string where
  "invalid_geo_query = ''invalid point or distance in geo near query''"

text \<open>\<open>Shop.find({location: {$near: ..., $maxDistance: m}}, isActive, isApproved)\<close>.\<close>

definition run_find_near :: "store \<Rightarrow> jsnum \<times> jsnum \<Rightarrow> jsnum \<Rightarrow> string + shop list" where
  "run_find_near st p m =
     (case fails st (FindNear p m) of
        Some e \<Rightarrow> Inl e
      | None \<Rightarrow>
          (case geo_point p of
             None \<Rightarrow> Inl invalid_geo_query
           | Some origin \<Rightarrow>
               (case geo_limit m of
                  None \<Rightarrow> Inl invalid_geo_query
                | Some bnd \<Rightarrow> Inr (geo_candidates st origin bnd))))"

text \<open>
  The value \<open>$geoNear\<close> writes to \<open>distanceField\<close> with
  \<open>distanceMultiplier: 0.001\<close>: the store's distance in kilometres.
\<close>

definition geoNear_distance :: "store \<Rightarrow> point \<Rightarrow> shop \<Rightarrow> real" where
  "geoNear_distance st origin s = sdist st origin (coordinates s) * 0.001"

text \<open>The \<open>$geoNear\<close> stage: each selected shop with its \<open>distance\<close> field.\<close>

definition run_geo_near ::
  "store \<Rightarrow> jsnum \<times> jsnum \<Rightarrow> jsnum option \<Rightarrow> string + (shop \<times> real) list" where
  "run_geo_near st p m =
     (case fails st (GeoNear p m) of
        Some e \<Rightarrow> Inl e
      | None \<Rightarrow>
          (case geo_point p of
             None \<Rightarrow> Inl invalid_geo_query
           | Some origin \<Rightarrow>
               (case (case m of None \<Rightarrow> Some None | Some b \<Rightarrow> geo_limit b) of
                  None \<Rightarrow> Inl invalid_geo_query
                | Some bnd \<Rightarrow>
                    Inr (map (\<lambda>s. (s, geoNear_distance st origin s))
                           (geo_candidates st origin bnd)))))"

section \<open>routes/location.js\<close>

text \<open>
  A handler returns the calls it issued to the store, in order, and the JSON response.
  \<open>Failure status message error\<close> is the body \<open>{success: false, message, error}\<close>
  sent with the HTTP status; \<open>Success\<close> carries the rest of a \<open>success: true\<close> body.
\<close>

datatype 'a response = Failure nat string "string option" | Success 'a

record 'a outcome =
  calls :: "store_call list"
  response :: "'a response"

definition respond :: "store_call list \<Rightarrow> 'a response \<Rightarrow> 'a outcome" where
  "respond cs r = \<lparr>calls = cs, response = r\<rparr>"

record saved_location =
  sl_shopId :: string
  sl_location :: point
  sl_deliveryRadius :: real

text \<open>
  \<open>findByIdAndUpdate(shopId, {location, deliveryRadius, locationSet: true}, {new: true})\<close>:
  the first shop with that identifier, updated, or nothing when there is none.
\<close>

fun update_location :: "shop list \<Rightarrow> string \<Rightarrow> point \<Rightarrow> real \<Rightarrow> (shop list \<times> shop) option" where
  "update_location [] sid loc r = None"
| "update_location (s # ss) sid loc r =
     (if shop_id s = sid then
        (let s' = s\<lparr>coordinates := loc, deliveryRadius := r, locationSet := True\<rparr>
         in Some (s' # ss, s'))
      else
        (case update_location ss sid loc r of
           None \<Rightarrow> None
         | Some (ss', s') \<Rightarrow> Some (s # ss', s')))"

text \<open>\<open>POST /shop/location\<close>; the store after the request is returned with the outcome.\<close>

definition save_shop_location ::
  "store \<Rightarrow> string option \<Rightarrow> real option \<Rightarrow> real option \<Rightarrow> real option
     \<Rightarrow> saved_location outcome \<times> store" where
  "save_shop_location st shopId latitude longitude deliveryRadius' =
     (if \<not> truthy_str shopId \<or> \<not> truthy_num latitude \<or> \<not> truthy_num longitude
           \<or> \<not> truthy_num deliveryRadius' then
        (respond [] (Failure 400 ''Missing required fields'' None), st)
      else
        let sid = the shopId; lat = the latitude; lon = the longitude; r = the deliveryRadius'
        in if lat < - 90 \<or> 90 < lat \<or> lon < - 180 \<or> 180 < lon then
             (respond [] (Failure 400 ''Invalid coordinates'' None), st)
           else if r < 0 \<or> 50 < r then
             (respond [] (Failure 400 ''Delivery radius must be between 0 and 50 km'' None), st)
           else
             let c = UpdateLocation sid (lon, lat) r
             in (case fails st c of
                   Some e \<Rightarrow> (respond [c] (Failure 500 ''Server error'' (Some e)), st)
                 | None \<Rightarrow>
                     (case update_location (shops st) sid (lon, lat) r of
                        None \<Rightarrow> (respond [c] (Failure 404 ''Shop not found'' None), st)
                      | Some (ss', s') \<Rightarrow>
                          (respond [c]
                             (Success \<lparr>sl_shopId = shop_id s', sl_location = coordinates s',
                                        sl_deliveryRadius = deliveryRadius s'\<rparr>),
                           st\<lparr>shops := ss'\<rparr>))))"

record nearby_entry =
  ne_shop :: shop
  ne_distance :: real
  withinDeliveryRadius :: bool

record 'e listing =
  count :: nat
  data :: "'e list"

record 'e radius_listing = "'e listing" +
  searchRadius :: jsnum

definition missing_coordinates :: "'a response" where
  "missing_coordinates = Failure 400 ''Latitude and longitude are required'' None"

text \<open>
  \<open>calculateDistance(latitude, longitude, shop.location.coordinates[1],
  shop.location.coordinates[0])\<close>.
\<close>

definition shop_distance :: "real \<Rightarrow> real \<Rightarrow> shop \<Rightarrow> real" where
  "shop_distance latitude longitude s =
     calculateDistance latitude longitude (snd (coordinates s)) (fst (coordinates s))"

text \<open>The body of the \<open>shops.map\<close> callback of \<open>/shops/nearby\<close>.\<close>

definition with_distance :: "real \<Rightarrow> real \<Rightarrow> shop \<Rightarrow> nearby_entry" where
  "with_distance latitude longitude s =
     (let distance = shop_distance latitude longitude s
      in \<lparr>ne_shop = s, ne_distance = toFixed2 distance,
          withinDeliveryRadius = (distance \<le> deliveryRadius s)\<rparr>)"

text \<open>\<open>maxDistance || 10\<close>.\<close>

definition maxDistanceKm :: "real option \<Rightarrow> real" where
  "maxDistanceKm maxDistance = (if truthy_num maxDistance then the maxDistance else 10)"

text \<open>\<open>POST /shops/nearby\<close>.\<close>

definition nearby_shops ::
  "store \<Rightarrow> real option \<Rightarrow> real option \<Rightarrow> real option \<Rightarrow> nearby_entry listing outcome" where
  "nearby_shops st latitude longitude maxDistance =
     (if \<not> truthy_num latitude \<or> \<not> truthy_num longitude then respond [] missing_coordinates
      else
        let lat = the latitude; lon = the longitude;
            p = (Fin lon, Fin lat);
            m = Fin (maxDistanceKm maxDistance * 1000)
        in case run_find_near st p m of
             Inl e \<Rightarrow> respond [FindNear p m] (Failure 500 ''Server error'' (Some e))
           | Inr found \<Rightarrow>
               let shopsWithDistance = map (with_distance lat lon) found
               in respond [FindNear p m]
                    (Success \<lparr>count = length shopsWithDistance, data = shopsWithDistance\<rparr>))"

text \<open>
  The stages after \<open>$geoNear\<close> in \<open>/shops/deliverable\<close>: \<open>$addFields\<close> and \<open>$match\<close>
  on \<open>withinDeliveryRadius\<close>, \<open>$project\<close> with the rounded distance, \<open>$sort\<close>.
\<close>

definition deliverable_stages :: "(shop \<times> real) list \<Rightarrow> (shop \<times> real) list" where
  "deliverable_stages docs =
     sort_key snd
       (map (\<lambda>(s, d). (s, round2 d))
          (filter (\<lambda>(s, d). d \<le> deliveryRadius s) docs))"

text \<open>\<open>POST /shops/deliverable\<close>; \<open>parseFloat\<close> of a number is the number.\<close>

definition deliverable_shops ::
  "store \<Rightarrow> real option \<Rightarrow> real option \<Rightarrow> (shop \<times> real) listing outcome" where
  "deliverable_shops st latitude longitude =
     (if \<not> truthy_num latitude \<or> \<not> truthy_num longitude then respond [] missing_coordinates
      else
        let p = (Fin (the longitude), Fin (the latitude))
        in case run_geo_near st p None of
             Inl e \<Rightarrow> respond [GeoNear p None] (Failure 500 ''Server error'' (Some e))
           | Inr docs \<Rightarrow>
               let found = deliverable_stages docs
               in respond [GeoNear p None] (Success \<lparr>count = length found, data = found\<rparr>))"

text \<open>The stages after \<open>$geoNear\<close> in \<open>/shops/radius\<close>: \<open>$project\<close>, \<open>$sort\<close>.\<close>

definition radius_stages :: "(shop \<times> real) list \<Rightarrow> (shop \<times> real) list" where
  "radius_stages docs = sort_key snd (map (\<lambda>(s, d). (s, round2 d)) docs)"

text \<open>\<open>GET /shops/radius\<close>; its parameters come from the query string.\<close>

definition radius_shops ::
  "store \<Rightarrow> string option \<Rightarrow> string option \<Rightarrow> string option
     \<Rightarrow> (shop \<times> real) radius_listing outcome" where
  "radius_shops st latitude longitude radius =
     (if \<not> truthy_str latitude \<or> \<not> truthy_str longitude then respond [] missing_coordinates
      else
        let searchRadius' = (if truthy_jsnum (parseFloat_param radius)
                             then parseFloat_param radius else Fin 5);
            p = (parseFloat_param longitude, parseFloat_param latitude);
            m = Some (jsnum_scale searchRadius' 1000)
        in case run_geo_near st p m of
             Inl e \<Rightarrow> respond [GeoNear p m] (Failure 500 ''Server error'' (Some e))
           | Inr docs \<Rightarrow>
               let found = radius_stages docs
               in respond [GeoNear p m]
                    (Success \<lparr>count = length found, data = found, searchRadius = searchRadius'\<rparr>))"

section \<open>routes/dashboard.js\<close>

text \<open>
  A store call either rejects with the error the store raises for it or resolves to the
  value computed from the collections.
\<close>

definition run_query :: "store \<Rightarrow> store_call \<Rightarrow> 'a \<Rightarrow> string + 'a" where
  "run_query st c v = (case fails st c of Some e \<Rightarrow> Inl e | None \<Rightarrow> Inr v)"

text \<open>
  \<open>await Promise.all([q1, q2, ...])\<close> is a chain of \<open>and_then\<close>: every call has been
  issued, the values arrive only when all resolved, and one rejection is thrown otherwise.
  When several calls reject, JavaScript throws the one that rejects first in time; the
  chain takes the first in the array.
\<close>

definition and_then :: "string + 'a \<Rightarrow> ('a \<Rightarrow> string + 'b) \<Rightarrow> string + 'b" where
  "and_then r k = (case r of Inl e \<Rightarrow> Inl e | Inr v \<Rightarrow> k v)"

definition find_shop_by_owner :: "store \<Rightarrow> string \<Rightarrow> shop option" where
  "find_shop_by_owner st oid = find (\<lambda>s. ownerId s = oid) (shops st)"

definition count_products :: "store \<Rightarrow> string \<Rightarrow> bool option \<Rightarrow> nat" where
  "count_products st sid avail =
     length (filter (\<lambda>p. p_shopId p = sid \<and>
                          (case avail of None \<Rightarrow> True | Some a \<Rightarrow> isAvailable p = a))
               (products st))"

definition count_orders :: "store \<Rightarrow> string \<Rightarrow> string option \<Rightarrow> int option \<Rightarrow> nat" where
  "count_orders st sid stat since =
     length (filter (\<lambda>od. o_shopId od = sid \<and>
                          (case stat of None \<Rightarrow> True | Some x \<Rightarrow> status od = x) \<and>
                          (case since of None \<Rightarrow> True | Some t \<Rightarrow> t \<le> createdAt od))
               (orders st))"

text \<open>
  The pipeline \<open>$match {shopId, status: 'Completed', createdAt: {$gte: t}}\<close>,
  \<open>$group {_id: null, total: {$sum: '$totalAmount'}}\<close>: no document when nothing
  matches, one total otherwise.
\<close>

definition sum_completed :: "store \<Rightarrow> string \<Rightarrow> int \<Rightarrow> real list" where
  "sum_completed st sid since =
     (let ms = filter (\<lambda>od. o_shopId od = sid \<and> status od = ''Completed'' \<and> since \<le> createdAt od)
                 (orders st)
      in if ms = [] then [] else [sum_list (map totalAmount ms)])"

text \<open>\<open>todayRevenue[0]?.total || 0\<close>.\<close>

definition first_total :: "real list \<Rightarrow> real" where
  "first_total ts = (case ts of [] \<Rightarrow> 0 | t # _ \<Rightarrow> if t \<noteq> 0 then t else 0)"

record summary =
  sum_shop_id :: string
  sum_shop_name :: string
  sum_isOpen :: bool
  sum_isActive :: bool
  products_total :: nat
  products_available :: nat
  products_unavailable :: int
  orders_total :: nat
  orders_pending :: nat
  orders_accepted :: nat
  orders_completed :: nat
  revenue_total :: real
  revenue_today :: real
  today_orders :: nat
  today_revenue :: real

definition summary_failed :: "string \<Rightarrow> 'a response" where
  "summary_failed e = Failure 500 ''Failed to load dashboard summary'' (Some e)"

text \<open>The eight calls of the \<open>Promise.all\<close> of the summary, in the order of the array.\<close>

definition summary_calls :: "string \<Rightarrow> int \<Rightarrow> store_call list" where
  "summary_calls sid todayStart =
     [CountProducts sid None,
      CountProducts sid (Some True),
      CountOrders sid None None,
      CountOrders sid (Some ''Pending'') None,
      CountOrders sid (Some ''Accepted'') None,
      CountOrders sid (Some ''Completed'') None,
      SumCompleted sid todayStart,
      CountOrders sid None (Some todayStart)]"

definition summary_join :: "store \<Rightarrow> shop \<Rightarrow> int \<Rightarrow> string + summary" where
  "summary_join st sh todayStart =
     (let sid = shop_id sh
      in and_then (run_query st (CountProducts sid None) (count_products st sid None))
        (\<lambda>totalProducts.
         and_then (run_query st (CountProducts sid (Some True)) (count_products st sid (Some True)))
        (\<lambda>availableProducts.
         and_then (run_query st (CountOrders sid None None) (count_orders st sid None None))
        (\<lambda>totalOrders.
         and_then (run_query st (CountOrders sid (Some ''Pending'') None)
                     (count_orders st sid (Some ''Pending'') None))
        (\<lambda>pendingOrders.
         and_then (run_query st (CountOrders sid (Some ''Accepted'') None)
                     (count_orders st sid (Some ''Accepted'') None))
        (\<lambda>acceptedOrders.
         and_then (run_query st (CountOrders sid (Some ''Completed'') None)
                     (count_orders st sid (Some ''Completed'') None))
        (\<lambda>completedOrders.
         and_then (run_query st (SumCompleted sid todayStart) (sum_completed st sid todayStart))
        (\<lambda>todayRevenue.
         and_then (run_query st (CountOrders sid None (Some todayStart))
                     (count_orders st sid None (Some todayStart)))
        (\<lambda>todayOrders.
           Inr \<lparr>sum_shop_id = shop_id sh,
                sum_shop_name = shop_name sh,
                sum_isOpen = isOpen sh,
                sum_isActive = isActive sh,
                products_total = totalProducts,
                products_available = availableProducts,
                products_unavailable = int totalProducts - int availableProducts,
                orders_total = totalOrders,
                orders_pending = pendingOrders,
                orders_accepted = acceptedOrders,
                orders_completed = completedOrders,
                revenue_total = (case totalRevenue sh of None \<Rightarrow> 0 | Some t \<Rightarrow> t),
                revenue_today = first_total todayRevenue,
                today_orders = todayOrders,
                today_revenue = first_total todayRevenue\<rparr>)))))))))"

text \<open>
  \<open>GET /summary/:ownerId\<close>. \<open>todayStart\<close> is the value of
  \<open>new Date(new Date().setHours(0, 0, 0, 0))\<close>, the server's local midnight; the
  \<open>responseTime\<close> field of the body is a wall-clock measurement and is left out.
\<close>

definition dashboard_summary :: "store \<Rightarrow> int \<Rightarrow> string \<Rightarrow> summary outcome" where
  "dashboard_summary st todayStart oid =
     (if oid = [] then respond [] (Failure 400 ''ownerId is required'' None)
      else
        case fails st (FindShopByOwner oid) of
          Some e \<Rightarrow> respond [FindShopByOwner oid] (summary_failed e)
        | None \<Rightarrow>
            (case find_shop_by_owner st oid of
               None \<Rightarrow> respond [FindShopByOwner oid] (Failure 404 ''Shop not found for this owner'' None)
             | Some sh \<Rightarrow>
                 (case summary_join st sh todayStart of
                    Inl e \<Rightarrow>
                      respond (FindShopByOwner oid # summary_calls (shop_id sh) todayStart)
                        (summary_failed e)
                  | Inr body \<Rightarrow>
                      respond (FindShopByOwner oid # summary_calls (shop_id sh) todayStart)
                        (Success body))))"

subsection \<open>The statistics route\<close>




















text \<open>
  The two conversions of the server's time zone that \<open>Date\<close> uses: the local time value
  of an instant and the instant of a local time value.
\<close>

record zone =
  localTime :: "int \<Rightarrow> int"
  utcTime :: "int \<Rightarrow> int"

text \<open>\<open>TimeClip\<close>: a time value beyond 8.64e15 ms from the epoch is an invalid date.\<close>

definition timeClip :: "int \<Rightarrow> int option" where
  "timeClip t = (if \<bar>t\<bar> \<le> 8640000000000000 then Some t else None)"

text \<open>
  \<open>d.setDate(d.getDate() - n)\<close> for the valid date \<open>d\<close> of the instant \<open>now\<close>:
  the local date fields are recomputed with the day of the month moved back by \<open>n\<close>
  and the local time of day kept, which is the local time value less \<open>n\<close> days of
  24 hours; that local time value is converted back to an instant and clipped.
\<close>

definition setDate_back :: "zone \<Rightarrow> int \<Rightarrow> int \<Rightarrow> int option" where
  "setDate_back z now n = timeClip (utcTime z (localTime z now - n * 86400000))"



section \<open>Example data\<close>

text \<open>The latitude of the point \<open>km\<close> kilometres due north of latitude \<open>lat\<close>.\<close>

definition north_of :: "real \<Rightarrow> real \<Rightarrow> real" where
  "north_of lat km = lat + km * 180 / (6371 * pi)"

text \<open>
  A store whose index measures the distance \<open>calculateDistance\<close> computes, in metres,
  and which fails no call.
\<close>

definition haversine_metres :: "point \<Rightarrow> point \<Rightarrow> real" where
  "haversine_metres p q = 1000 * calculateDistance (snd p) (fst p) (snd q) (fst q)"

text \<open>
  An index that measures great-circle distance on a sphere of another radius:
  \<open>k\<close> metres for each kilometre of \<open>calculateDistance\<close>.
\<close>

definition scaled_metres :: "real \<Rightarrow> point \<Rightarrow> point \<Rightarrow> real" where
  "scaled_metres k p q = k * calculateDistance (snd p) (fst p) (snd q) (fst q)"

definition demo_lat :: real where "demo_lat = 12.9716"
definition demo_lon :: real where "demo_lon = 77.5946"

definition shop_at :: "string \<Rightarrow> string \<Rightarrow> real \<Rightarrow> real \<Rightarrow> bool \<Rightarrow> shop" where
  "shop_at sid oid km radius active =
     \<lparr>shop_id = sid, ownerId = oid, shop_name = sid, isOpen = True, isActive = active,
      isApproved = True, coordinates = (demo_lon, north_of demo_lat km),
      deliveryRadius = radius, locationSet = True, totalRevenue = None\<rparr>"

text \<open>
  Shops due north of the origin \<open>(demo_lat, demo_lon)\<close>: A at 3.2 km and B at 8 km, which
  deliver that far; C at 12 km and D at 5.004 km, which do not; E at 1 km, deactivated.
\<close>

definition shop_A :: shop where "shop_A = shop_at ''A'' ''owner-a'' 3.2 5 True"
definition shop_B :: shop where "shop_B = shop_at ''B'' ''owner-b'' 8 10 True"
definition shop_C :: shop where "shop_C = shop_at ''C'' ''owner-c'' 12 10 True"
definition shop_D :: shop where "shop_D = shop_at ''D'' ''owner-d'' 5.004 5 True"
definition shop_E :: shop where "shop_E = shop_at ''E'' ''owner-e'' 1 5 False"

text \<open>Shop F, 4.999 km north of the origin, and shop G, 0.9955 km north; both deliver 5 km far.\<close>

definition shop_F :: shop where "shop_F = shop_at ''F'' ''owner-f'' 4.999 5 True"
definition shop_G :: shop where "shop_G = shop_at ''G'' ''owner-g'' 0.9955 5 True"

text \<open>
  Orders of shop A around 3 November 2024 (time stamp 1730592000000 is that day's
  midnight, UTC), one of shop B, and the products of both. Shop C has neither.
\<close>

definition order_at :: "string \<Rightarrow> string \<Rightarrow> real \<Rightarrow> int \<Rightarrow> order" where
  "order_at sid st amount t = \<lparr>o_shopId = sid, status = st, totalAmount = amount, createdAt = t\<rparr>"

definition demo_orders :: "order list" where
  "demo_orders =
     [order_at ''A'' ''Completed'' 100 1730592000000,
      order_at ''A'' ''Pending'' 70 1730595600000,
      order_at ''A'' ''Completed'' 30 1730505600000,
      order_at ''B'' ''Completed'' 10 1730592000000,
      order_at ''A'' ''Completed'' 50 1730600000000,
      order_at ''A'' ''Completed'' 999 1729000000000]"

definition demo_products :: "product list" where
  "demo_products =
     [\<lparr>p_shopId = ''A'', category = ''Snacks'', isAvailable = True\<rparr>,
      \<lparr>p_shopId = ''A'', category = ''Drinks'', isAvailable = False\<rparr>,
      \<lparr>p_shopId = ''B'', category = ''Drinks'', isAvailable = True\<rparr>,
      \<lparr>p_shopId = ''A'', category = ''Snacks'', isAvailable = True\<rparr>]"

definition demo_store :: store where
  "demo_store =
     \<lparr>shops = [shop_C, shop_A, shop_E, shop_D, shop_B],
      products = demo_products,
      orders = demo_orders,
      sdist = haversine_metres,
      fails = (\<lambda>c. None)\<rparr>"

text \<open>
  The example store with an index on a sphere a thousandth larger, holding the shops F
  and G, and with one on a sphere a thousandth smaller.
\<close>

definition larger_sphere_store :: store where
  "larger_sphere_store = demo_store\<lparr>shops := [shop_F, shop_G], sdist := scaled_metres 1001\<rparr>"


text \<open>The example store with the shops B, D and F only.\<close>

definition delivery_store :: store where
  "delivery_store = demo_store\<lparr>shops := [shop_B, shop_D, shop_F]\<rparr>"


text \<open>The store that fails the call \<open>c\<close>, and only it, with the message \<open>e\<close>.\<close>

definition failing :: "store_call \<Rightarrow> string \<Rightarrow> store_call \<Rightarrow> string option" where
  "failing c e = (\<lambda>x. if x = c then Some e else None)"

section \<open>What the statistics are to count\<close>



section \<open>Properties of the distance\<close>

lemma sin_half_sq: "sin (x / 2) * sin (x / 2) = (1 - cos x) / (2::real)"
  using cos_double_sin[of "x/2"] by (simp add: power2_eq_square)

lemma toRad_diff: "toRad (x - y) = toRad x - toRad y"
  by (simp add: toRad_def left_diff_distrib)

lemma haversine_a_alt:
  "haversine_a lat1 lon1 lat2 lon2 =
     (1 - (sin (toRad lat1) * sin (toRad lat2) +
           cos (toRad lat1) * cos (toRad lat2) * cos (toRad (lon2 - lon1)))) / 2"
proof -
  define s1 s2 c1 c2 cl where "s1 = sin (toRad lat1)" and "s2 = sin (toRad lat2)"
    and "c1 = cos (toRad lat1)" and "c2 = cos (toRad lat2)" and "cl = cos (toRad (lon2 - lon1))"
  have "haversine_a lat1 lon1 lat2 lon2 =
      (1 - cos (toRad lat2 - toRad lat1)) / 2 + c1 * c2 * ((1 - cl) / 2)"
    unfolding haversine_a_def Let_def c1_def c2_def cl_def
    by (simp only: mult.assoc sin_half_sq toRad_diff)
  also have "cos (toRad lat2 - toRad lat1) = c2 * c1 + s2 * s1"
    by (simp add: cos_diff s1_def s2_def c1_def c2_def)
  also have "(1 - (c2 * c1 + s2 * s1)) / 2 + c1 * c2 * ((1 - cl) / 2) = (1 - (s1 * s2 + c1 * c2 * cl)) / 2"
    by (simp add: field_simps)
  finally show ?thesis
    by (simp only: s1_def s2_def c1_def c2_def cl_def)
qed

lemma abs_mult_le_half: "\<bar>x * y\<bar> \<le> (x * x + y * y) / (2::real)"
proof -
  have "0 \<le> (\<bar>x\<bar> - \<bar>y\<bar>) * (\<bar>x\<bar> - \<bar>y\<bar>)" by simp
  then show ?thesis by (simp add: algebra_simps abs_mult)
qed

lemma dot_bound:
  "\<bar>sin p * sin q + cos p * cos q * cos l\<bar> \<le> (1::real)"
proof -
  have "\<bar>cos p * cos q * cos l\<bar> = \<bar>cos p * cos q\<bar> * \<bar>cos l\<bar>" by (simp add: abs_mult)
  also have "\<dots> \<le> \<bar>cos p * cos q\<bar> * 1"
    by (rule mult_left_mono) (simp_all)
  finally have c: "\<bar>cos p * cos q * cos l\<bar> \<le> \<bar>cos p * cos q\<bar>" by simp
  have sp: "sin p * sin p + cos p * cos p = 1" and sq: "sin q * sin q + cos q * cos q = 1"
    using sin_cos_squared_add[of p] sin_cos_squared_add[of q]
    by (simp_all add: power2_eq_square)
  have "\<bar>sin p * sin q + cos p * cos q * cos l\<bar> \<le> \<bar>sin p * sin q\<bar> + \<bar>cos p * cos q\<bar>"
    using c by linarith
  also have "\<dots> \<le> (sin p * sin p + sin q * sin q) / 2 + (cos p * cos p + cos q * cos q) / 2"
    using abs_mult_le_half[of "sin p" "sin q"] abs_mult_le_half[of "cos p" "cos q"] by linarith
  also have "\<dots> = ((sin p * sin p + cos p * cos p) + (sin q * sin q + cos q * cos q)) / 2"
    by (simp add: add_divide_distrib)
  also have "\<dots> = 1"
    by (simp only: sp sq) simp
  finally show ?thesis .
qed

lemma haversine_a_range: "0 \<le> haversine_a lat1 lon1 lat2 lon2 \<and> haversine_a lat1 lon1 lat2 lon2 \<le> 1"
  using dot_bound[of "toRad lat1" "toRad lat2" "toRad (lon2 - lon1)"]
  unfolding haversine_a_alt by (simp add: abs_le_iff)

lemma haversine_a_sym: "haversine_a lat1 lon1 lat2 lon2 = haversine_a lat2 lon2 lat1 lon1"
proof -
  have "toRad (lon1 - lon2) = - toRad (lon2 - lon1)" by (simp add: toRad_diff)
  then show ?thesis by (simp add: haversine_a_alt mult.commute)
qed

lemma atan2_nonneg: "0 \<le> y \<Longrightarrow> 0 \<le> atan2 y x"
proof -
  assume y: "0 \<le> y"
  have lb: "- (pi / 2) < arctan (y / x)" by (rule arctan_lbound)
  show ?thesis
  proof (cases "0 < x")
    case True
    with y have "0 \<le> y / x" by simp
    then have "0 \<le> arctan (y / x)" by (simp add: zero_le_arctan_iff)
    with True show ?thesis by (simp add: atan2_def)
  next
    case False
    show ?thesis
    proof (cases "x < 0")
      case True
      have "0 \<le> arctan (y / x) + pi" using lb pi_gt_zero by linarith
      with True y show ?thesis by (simp add: atan2_def)
    next
      case False
      with \<open>\<not> 0 < x\<close> y show ?thesis by (simp add: atan2_def)
    qed
  qed
qed

lemma haversine_a_same: "haversine_a lat lon lat lon = 0"
  by (simp add: haversine_a_def toRad_def)

lemma abs_sin_small:
  assumes "\<bar>x\<bar> \<le> pi / 2"
  shows "\<bar>sin x\<bar> = sin \<bar>x\<bar>"
proof (cases "0 \<le> x")
  case True
  then have "0 \<le> sin x" using assms by (intro sin_ge_zero) (auto simp: abs_le_iff)
  with True show ?thesis by simp
next
  case False
  then have "0 \<le> sin (- x)" using assms pi_gt_zero by (intro sin_ge_zero) (auto simp: abs_le_iff)
  with False show ?thesis by simp
qed

lemma atan2_abs_sin_cos:
  assumes "\<bar>x\<bar> \<le> pi / 2"
  shows "atan2 \<bar>sin x\<bar> (cos x) = \<bar>x\<bar>"
proof (cases "\<bar>x\<bar> = pi / 2")
  case True
  have "cos x = cos \<bar>x\<bar>" by simp
  also have "\<dots> = 0" by (simp only: True cos_pi_half)
  finally have cx: "cos x = 0" .
  have "\<bar>sin x\<bar> = sin \<bar>x\<bar>" by (rule abs_sin_small[OF assms])
  also have "\<dots> = 1" by (simp only: True sin_pi_half)
  finally have sx: "\<bar>sin x\<bar> = 1" .
  have "atan2 1 0 = pi / 2" by (simp add: atan2_def)
  then show ?thesis by (simp only: cx sx True)
next
  case False
  with assms have lt: "\<bar>x\<bar> < pi / 2" by simp
  then have "0 < cos x" by (intro cos_gt_zero_pi) (auto simp: abs_less_iff)
  then have "atan2 \<bar>sin x\<bar> (cos x) = arctan (\<bar>sin x\<bar> / cos x)" by (simp add: atan2_def)
  also have "\<bar>sin x\<bar> / cos x = tan \<bar>x\<bar>"
    by (simp add: tan_def abs_sin_small[OF assms])
  also have "arctan (tan \<bar>x\<bar>) = \<bar>x\<bar>"
    using lt by (intro arctan_tan) linarith+
  finally show ?thesis .
qed

lemma calculateDistance_meridian:
  assumes "\<bar>lat2 - lat1\<bar> \<le> 180"
  shows "calculateDistance lat1 lon lat2 lon = 6371 * \<bar>toRad (lat2 - lat1)\<bar>"
proof -
  define x where "x = toRad (lat2 - lat1) / 2"
  have xb: "\<bar>x\<bar> \<le> pi / 2"
  proof -
    have "\<bar>x\<bar> = \<bar>lat2 - lat1\<bar> * (pi / 360)" by (simp add: x_def toRad_def abs_mult)
    also have "\<dots> \<le> 180 * (pi / 360)" using assms by (intro mult_right_mono) simp_all
    finally show ?thesis by simp
  qed
  have a: "haversine_a lat1 lon lat2 lon = sin x * sin x"
    by (simp add: haversine_a_def x_def toRad_def)
  have cge: "0 \<le> cos x" using xb by (intro cos_ge_zero) (auto simp: abs_le_iff)
  have "1 - sin x * sin x = cos x * cos x"
    using sin_cos_squared_add[of x] by (simp add: power2_eq_square algebra_simps)
  then have q: "sqrt (1 - sin x * sin x) = cos x" using cge by simp
  have p: "sqrt (sin x * sin x) = \<bar>sin x\<bar>" by simp
  have "calculateDistance lat1 lon lat2 lon = 6371 * (2 * atan2 \<bar>sin x\<bar> (cos x))"
    by (simp only: calculateDistance_def Let_def a p q)
  also have "\<dots> = 6371 * (2 * \<bar>x\<bar>)" by (simp only: atan2_abs_sin_cos[OF xb])
  also have "2 * \<bar>x\<bar> = \<bar>toRad (lat2 - lat1)\<bar>" by (simp add: x_def)
  finally show ?thesis .
qed

lemma toRad_north: "toRad (km * 180 / (6371 * pi)) = km / 6371"
proof -
  have "pi \<noteq> 0" using pi_gt_zero by simp
  then show ?thesis by (simp add: toRad_def)
qed

lemma north_le: assumes "0 \<le> km" "km \<le> 6371 * 2" shows "km * 180 / (6371 * pi) \<le> 180"
proof -
  have "km \<le> 6371 * pi" using assms(2) pi_ge_two by linarith
  then have "km * 180 \<le> 180 * (6371 * pi)" by linarith
  moreover have "0 < 6371 * pi" using pi_gt_zero by simp
  ultimately show ?thesis by (simp only: pos_divide_le_eq)
qed

lemma calculateDistance_north_of:
  assumes "0 \<le> km" "km \<le> 6371 * 2"
  shows "calculateDistance lat lon (north_of lat km) lon = km"
proof -
  have d: "north_of lat km - lat = km * 180 / (6371 * pi)" by (simp add: north_of_def)
  have "0 \<le> km * 180 / (6371 * pi)" using assms(1) pi_gt_zero by simp
  with north_le[OF assms] have b: "\<bar>north_of lat km - lat\<bar> \<le> 180" unfolding d by linarith
  have "calculateDistance lat lon (north_of lat km) lon = 6371 * \<bar>toRad (north_of lat km - lat)\<bar>"
    by (rule calculateDistance_meridian[OF b])
  also have "\<dots> = 6371 * \<bar>km / 6371\<bar>" by (simp only: d toRad_north)
  also have "\<dots> = km" using assms(1) by simp
  finally show ?thesis .
qed

text \<open>
  In exact arithmetic the distance is symmetric in its two points, 0 from a point to
  itself and never negative.
\<close>

lemma calculateDistance_exact:
  "calculateDistance lat1 lon1 lat2 lon2 = calculateDistance lat2 lon2 lat1 lon1
   \<and> calculateDistance lat1 lon1 lat1 lon1 = 0
   \<and> 0 \<le> calculateDistance lat1 lon1 lat2 lon2"
proof -
  have "0 \<le> sqrt (haversine_a lat1 lon1 lat2 lon2)"
    using haversine_a_range[of lat1 lon1 lat2 lon2] by simp
  then have "0 \<le> calculateDistance lat1 lon1 lat2 lon2"
    by (simp add: calculateDistance_def Let_def atan2_nonneg)
  moreover have "calculateDistance lat1 lon1 lat1 lon1 = 0"
    by (simp add: calculateDistance_def Let_def haversine_a_same atan2_def)
  moreover have "calculateDistance lat1 lon1 lat2 lon2 = calculateDistance lat2 lon2 lat1 lon1"
    by (simp only: calculateDistance_def haversine_a_sym[of lat1 lon1 lat2 lon2])
  ultimately show ?thesis by simp
qed

lemma distance_from_a_exact:
  "distance_from_a (haversine_a lat1 lon1 lat2 lon2) = Fin (calculateDistance lat1 lon1 lat2 lon2)"
  using haversine_a_range[of lat1 lon1 lat2 lon2]
  by (simp add: distance_from_a_def calculateDistance_def Let_def)




section \<open>Lemmas about the discovery routes\<close>

lemma round2_grid: "\<exists>k :: int. round2 x = of_int k / 100"
proof -
  have "round2 x = of_int \<lfloor>x * 100\<rfloor> / 100 \<or> round2 x = of_int (\<lfloor>x * 100\<rfloor> + 1) / 100"
    by (simp add: round2_def Let_def)
  then show ?thesis by blast
qed

lemma round2_close: "\<bar>round2 x - x\<bar> \<le> 1 / 200"
proof -
  define y where "y = x * 100"
  define f where "f = \<lfloor>y\<rfloor>"
  have f: "of_int f \<le> y" "y < of_int f + 1" by (simp_all add: f_def)
  have x: "x = y / 100" by (simp add: y_def)
  show ?thesis
    unfolding round2_def Let_def y_def[symmetric] f_def[symmetric]
    using f by (auto simp: x abs_le_iff field_simps)
qed



lemma set_deliverable_stages:
  "set (deliverable_stages docs) = (\<lambda>(s, d). (s, round2 d)) ` {(s, d) \<in> set docs. d \<le> deliveryRadius s}"
  by (auto simp: deliverable_stages_def)

lemma sorted_deliverable_stages: "sorted (map snd (deliverable_stages docs))"
  by (simp add: deliverable_stages_def sorted_sort_key)

lemma set_geo_candidates:
  "set (geo_candidates st origin bnd) =
     {s \<in> set (shops st). isActive s \<and> isApproved s \<and> within_limit bnd (sdist st origin (coordinates s))}"
  by (auto simp: geo_candidates_def)


lemma deliverable_success_iff:
  "response (deliverable_shops st (Some lat) (Some lon)) = Success body \<longleftrightarrow>
     lat \<noteq> 0 \<and> lon \<noteq> 0 \<and> fails st (GeoNear (Fin lon, Fin lat) None) = None \<and> geo_in_bounds (lon, lat) \<and>
     body = \<lparr>count = length (deliverable_stages (map (\<lambda>s. (s, geoNear_distance st (lon, lat) s)) (geo_candidates st (lon, lat) None))),
             data = deliverable_stages (map (\<lambda>s. (s, geoNear_distance st (lon, lat) s)) (geo_candidates st (lon, lat) None))\<rparr>"
  by (auto simp: deliverable_shops_def respond_def missing_coordinates_def truthy_num_def run_geo_near_def geo_point_def Let_def
      split: option.splits sum.splits)


lemma maxDistanceKm_simps:
  "maxDistanceKm None = 10"
  "maxDistanceKm (Some r) = (if r = 0 then 10 else r)"
  by (simp_all add: maxDistanceKm_def truthy_num_def)

lemma nearby_success_iff:
  "response (nearby_shops st (Some lat) (Some lon) md) = Success body \<longleftrightarrow>
     lat \<noteq> 0 \<and> lon \<noteq> 0 \<and> geo_in_bounds (lon, lat) \<and>
     fails st (FindNear (Fin lon, Fin lat) (Fin (maxDistanceKm md * 1000))) = None \<and>
     0 \<le> maxDistanceKm md \<and>
     body = \<lparr>count = length (geo_candidates st (lon, lat) (Some (maxDistanceKm md * 1000))),
             data = map (with_distance lat lon) (geo_candidates st (lon, lat) (Some (maxDistanceKm md * 1000)))\<rparr>"
  by (auto simp: nearby_shops_def respond_def missing_coordinates_def truthy_num_def run_find_near_def
      geo_point_def geo_limit_def Let_def split: option.splits sum.splits if_splits)

lemma with_distance_fields:
  "ne_shop (with_distance lat lon s) = s"
  "ne_distance (with_distance lat lon s) = toFixed2 (shop_distance lat lon s)"
  "withinDeliveryRadius (with_distance lat lon s) = (shop_distance lat lon s \<le> deliveryRadius s)"
  by (simp_all add: with_distance_def Let_def)



lemma deliverable_data_bound:
  assumes "response (deliverable_shops st (Some lat) (Some lon)) = Success body"
    and "(s, d) \<in> set (data body)"
  shows "geoNear_distance st (lon, lat) s \<le> deliveryRadius s"
proof -
  from assms(1) have b: "data body = deliverable_stages (map (\<lambda>s. (s, geoNear_distance st (lon, lat) s)) (geo_candidates st (lon, lat) None))"
    by (simp add: deliverable_success_iff)
  from assms(2) show ?thesis unfolding b set_deliverable_stages by auto
qed

lemmas parse_defs = parseFloat_param_def parseFloat_def parse_unsigned_def parse_exponent_def scale10_def
  is_space_def is_digit_def digit_val_def jsnum_neg_def

lemma save_location_radius_check:
  assumes "sid \<noteq> []" "lat \<noteq> 0" "lon \<noteq> 0" "r \<noteq> 0" "- 90 \<le> lat" "lat \<le> 90" "- 180 \<le> lon" "lon \<le> 180"
  shows "fst (save_shop_location st (Some sid) (Some lat) (Some lon) (Some r)) =
           respond [] (Failure 400 ''Delivery radius must be between 0 and 50 km'' None)
         \<longleftrightarrow> r < 0 \<or> 50 < r"
  using assms
  by (auto simp: save_shop_location_def truthy_num_def truthy_str_def respond_def Let_def
      split: option.splits prod.splits)


section \<open>Lemmas about the dashboard routes\<close>















lemma summary_join_Inr_iff:
  "(\<exists>body. summary_join st sh t = Inr body) \<longleftrightarrow>
     (\<forall>c \<in> set (summary_calls (shop_id sh) t). fails st c = None)"
  by (auto simp: summary_join_def summary_calls_def and_then_def run_query_def Let_def
      split: option.splits)

lemma summary_join_Inl:
  "summary_join st sh t = Inl e \<Longrightarrow> \<exists>c \<in> set (summary_calls (shop_id sh) t). fails st c = Some e"
  by (auto simp: summary_join_def summary_calls_def and_then_def run_query_def Let_def
      split: option.splits)

lemma count_orders_none:
  "\<forall>od \<in> set (orders st). o_shopId od \<noteq> sid \<Longrightarrow> count_orders st sid stat since = 0"
  by (simp add: count_orders_def filter_empty_conv)

lemma sum_completed_none:
  "\<forall>od \<in> set (orders st). o_shopId od \<noteq> sid \<Longrightarrow> sum_completed st sid since = []"
  by (simp add: sum_completed_def filter_empty_conv)

lemma summary_join_no_orders:
  assumes "summary_join st sh t = Inr body" "\<forall>od \<in> set (orders st). o_shopId od \<noteq> shop_id sh"
  shows "orders_total body = 0 \<and> orders_pending body = 0 \<and> orders_accepted body = 0 \<and>
         orders_completed body = 0 \<and> today_orders body = 0 \<and> today_revenue body = 0 \<and>
         revenue_today body = 0"
  using assms(1)
  by (auto simp: summary_join_def and_then_def run_query_def Let_def count_orders_none[OF assms(2)]
      sum_completed_none[OF assms(2)] first_total_def split: option.splits)


lemma setDate_back_fixed_offset:
  assumes "localTime z = (\<lambda>t. t + c)" "utcTime z = (\<lambda>t. t - c)"
  shows "setDate_back z now n = timeClip (now - n * 86400000)"
  by (simp add: setDate_back_def assms)



section \<open>The example store, evaluated\<close>

lemma demo_distance:
  "0 \<le> km \<Longrightarrow> km \<le> 12742 \<Longrightarrow>
   haversine_metres (demo_lon, demo_lat) (coordinates (shop_at sid oid km r a)) = 1000 * km"
  by (simp add: haversine_metres_def shop_at_def calculateDistance_north_of)

lemma demo_origin:
  "demo_lat \<noteq> 0" "demo_lon \<noteq> 0" "geo_in_bounds (demo_lon, demo_lat)"
  by (simp_all add: demo_lat_def demo_lon_def geo_in_bounds_def)

lemmas demo_shops = shop_A_def shop_B_def shop_C_def shop_D_def shop_E_def

lemma demo_shop_fields:
  "isActive (shop_at sid oid km r a) = a"
  "isApproved (shop_at sid oid km r a) = True"
  "deliveryRadius (shop_at sid oid km r a) = r"
  "shop_id (shop_at sid oid km r a) = sid"
  by (simp_all add: shop_at_def)

lemma demo_store_fields:
  "shops demo_store = [shop_C, shop_A, shop_E, shop_D, shop_B]"
  "sdist demo_store = haversine_metres"
  "fails demo_store c = None"
  by (simp_all add: demo_store_def)

lemma demo_candidates_all:
  "geo_candidates demo_store (demo_lon, demo_lat) None = [shop_A, shop_D, shop_B, shop_C]"
  by (simp add: geo_candidates_def demo_store_fields demo_shops demo_shop_fields demo_distance within_limit_def)

lemma demo_deliverable:
  "response (deliverable_shops demo_store (Some demo_lat) (Some demo_lon)) =
     Success \<lparr>count = 2, data = [(shop_A, 3.2), (shop_B, 8)]\<rparr>"
  by (simp add: deliverable_shops_def truthy_num_def run_geo_near_def demo_store_fields geo_point_def demo_origin
      demo_candidates_all deliverable_stages_def geoNear_distance_def demo_shops demo_shop_fields demo_distance
      respond_def round2_def Let_def)

lemma demo_shop_distance:
  "0 \<le> km \<Longrightarrow> km \<le> 12742 \<Longrightarrow> shop_distance demo_lat demo_lon (shop_at sid oid km r a) = km"
  by (simp add: shop_distance_def shop_at_def calculateDistance_north_of)

lemma demo_candidates_10:
  "geo_candidates demo_store (demo_lon, demo_lat) (Some 10000) = [shop_A, shop_D, shop_B]"
  by (simp add: geo_candidates_def demo_store_fields demo_shops demo_shop_fields demo_distance within_limit_def)

lemma demo_candidates_15:
  "geo_candidates demo_store (demo_lon, demo_lat) (Some 15000) = [shop_A, shop_D, shop_B, shop_C]"
  by (simp add: geo_candidates_def demo_store_fields demo_shops demo_shop_fields demo_distance within_limit_def)

lemma demo_with_distance:
  "with_distance demo_lat demo_lon shop_A = \<lparr>ne_shop = shop_A, ne_distance = 3.2, withinDeliveryRadius = True\<rparr>"
  "with_distance demo_lat demo_lon shop_B = \<lparr>ne_shop = shop_B, ne_distance = 8, withinDeliveryRadius = True\<rparr>"
  "with_distance demo_lat demo_lon shop_C = \<lparr>ne_shop = shop_C, ne_distance = 12, withinDeliveryRadius = False\<rparr>"
  "with_distance demo_lat demo_lon shop_D = \<lparr>ne_shop = shop_D, ne_distance = 5, withinDeliveryRadius = False\<rparr>"
  by (simp_all add: with_distance_def Let_def demo_shops demo_shop_distance demo_shop_fields toFixed2_def)

lemma demo_nearby_10:
  "md = None \<or> md = Some 0 \<or> md = Some 10 \<Longrightarrow>
   nearby_shops demo_store (Some demo_lat) (Some demo_lon) md =
     respond [FindNear (Fin demo_lon, Fin demo_lat) (Fin 10000)]
       (Success \<lparr>count = 3,
                 data = [\<lparr>ne_shop = shop_A, ne_distance = 3.2, withinDeliveryRadius = True\<rparr>,
                         \<lparr>ne_shop = shop_D, ne_distance = 5, withinDeliveryRadius = False\<rparr>,
                         \<lparr>ne_shop = shop_B, ne_distance = 8, withinDeliveryRadius = True\<rparr>]\<rparr>)"
  by (auto simp: nearby_shops_def truthy_num_def maxDistanceKm_simps run_find_near_def demo_store_fields geo_point_def
      geo_limit_def demo_origin demo_candidates_10 demo_with_distance respond_def)

lemma demo_nearby_15:
  "nearby_shops demo_store (Some demo_lat) (Some demo_lon) (Some 15) =
     respond [FindNear (Fin demo_lon, Fin demo_lat) (Fin 15000)]
       (Success \<lparr>count = 4,
                 data = [\<lparr>ne_shop = shop_A, ne_distance = 3.2, withinDeliveryRadius = True\<rparr>,
                         \<lparr>ne_shop = shop_D, ne_distance = 5, withinDeliveryRadius = False\<rparr>,
                         \<lparr>ne_shop = shop_B, ne_distance = 8, withinDeliveryRadius = True\<rparr>,
                         \<lparr>ne_shop = shop_C, ne_distance = 12, withinDeliveryRadius = False\<rparr>]\<rparr>)"
  by (simp add: nearby_shops_def truthy_num_def maxDistanceKm_simps run_find_near_def demo_store_fields geo_point_def
      geo_limit_def demo_origin demo_candidates_15 demo_with_distance respond_def)

lemma demo_shops_distinct: "shop_C \<noteq> shop_A" "shop_C \<noteq> shop_B"
  by (simp_all add: demo_shops shop_at_def)

lemma demo_equator_distance:
  assumes "0 \<le> km" "km \<le> 100"
  shows "5000 < haversine_metres (demo_lon, 0) (coordinates (shop_at sid oid km r a))"
proof -
  have n: "north_of demo_lat km - 0 = demo_lat + km * 180 / (6371 * pi)" by (simp add: north_of_def)
  have k: "0 \<le> km * 180 / (6371 * pi)" using assms(1) pi_gt_zero by simp
  have "km * 180 / (6371 * pi) \<le> km * 180 / 12742"
    using assms(1) pi_ge_two by (intro divide_left_mono) simp_all
  also have "\<dots> \<le> 2" using assms(2) by simp
  finally have k2: "km * 180 / (6371 * pi) \<le> 2" .
  have "\<bar>north_of demo_lat km - 0\<bar> \<le> 180"
    unfolding n using k k2 by (simp add: demo_lat_def)
  then have "calculateDistance 0 demo_lon (north_of demo_lat km) demo_lon =
               6371 * \<bar>toRad (north_of demo_lat km - 0)\<bar>"
    by (rule calculateDistance_meridian)
  also have "toRad (north_of demo_lat km - 0) = toRad demo_lat + km / 6371"
  proof -
    have "toRad (demo_lat + km * 180 / (6371 * pi)) = toRad demo_lat + toRad (km * 180 / (6371 * pi))"
      by (simp add: toRad_def distrib_right)
    then show ?thesis by (simp only: n toRad_north)
  qed
  finally have e: "calculateDistance 0 demo_lon (north_of demo_lat km) demo_lon =
               6371 * \<bar>toRad demo_lat + km / 6371\<bar>" .
  have t: "0 \<le> toRad demo_lat" using pi_gt_zero by (simp add: toRad_def demo_lat_def)
  have "5 < 6371 * (12.9716 * (2 / 180) :: real)" by simp
  also have "\<dots> \<le> 6371 * (12.9716 * (pi / 180))" using pi_ge_two by simp
  finally have "5 < 6371 * toRad demo_lat" by (simp add: toRad_def demo_lat_def)
  moreover have "6371 * toRad demo_lat \<le> 6371 * \<bar>toRad demo_lat + km / 6371\<bar>"
    using t assms(1) by simp
  ultimately have "5 < calculateDistance 0 demo_lon (north_of demo_lat km) demo_lon"
    unfolding e by linarith
  then show ?thesis by (simp add: haversine_metres_def shop_at_def)
qed





lemma demo_dashboard_fields:
  "orders demo_store = demo_orders" "products demo_store = demo_products"
  by (simp_all add: demo_store_def)

lemma demo_owner_c: "find_shop_by_owner (demo_store\<lparr>fails := f\<rparr>) ''owner-c'' = Some shop_C"
  "find_shop_by_owner demo_store ''owner-c'' = Some shop_C"
  by (simp_all add: find_shop_by_owner_def demo_store_def demo_shops shop_at_def)

lemma demo_shop_C: "shop_id shop_C = ''C''" "shop_name shop_C = ''C''" "isOpen shop_C" "isActive shop_C"
  "totalRevenue shop_C = None"
  by (simp_all add: shop_C_def shop_at_def)

lemma demo_no_orders_C: "\<forall>od \<in> set (orders (demo_store\<lparr>fails := f\<rparr>)). o_shopId od \<noteq> shop_id shop_C"
  by (simp add: demo_store_def demo_orders_def order_at_def demo_shop_C)

lemma demo_summary_C:
  "response (dashboard_summary demo_store 1730592000000 ''owner-c'') =
     Success \<lparr>sum_shop_id = ''C'', sum_shop_name = ''C'', sum_isOpen = True, sum_isActive = True,
              products_total = 0, products_available = 0, products_unavailable = 0,
              orders_total = 0, orders_pending = 0, orders_accepted = 0, orders_completed = 0,
              revenue_total = 0, revenue_today = 0, today_orders = 0, today_revenue = 0\<rparr>"
  by (simp add: dashboard_summary_def demo_store_fields demo_owner_c summary_join_def and_then_def
      run_query_def demo_shop_C count_products_def count_orders_def sum_completed_def first_total_def
      demo_dashboard_fields demo_orders_def demo_products_def order_at_def respond_def Let_def)

lemma demo_summary_failing:
  "c \<in> set (summary_calls ''C'' 1730592000000) \<Longrightarrow>
   response (dashboard_summary (demo_store\<lparr>fails := failing c ''timeout''\<rparr>) 1730592000000 ''owner-c'') =
     Failure 500 ''Failed to load dashboard summary'' (Some ''timeout'')"
  by (auto simp: dashboard_summary_def demo_owner_c summary_join_def and_then_def summary_calls_def
      run_query_def demo_shop_C failing_def respond_def summary_failed_def Let_def)

lemma demo_scaled_distance:
  "0 \<le> km \<Longrightarrow> km \<le> 12742 \<Longrightarrow>
   scaled_metres k (demo_lon, demo_lat) (coordinates (shop_at sid oid km r a)) = k * km"
  by (simp add: scaled_metres_def shop_at_def calculateDistance_north_of)

lemma delivery_store_fields:
  "shops delivery_store = [shop_B, shop_D, shop_F]"
  "sdist delivery_store = haversine_metres"
  "fails delivery_store c = None"
  by (simp_all add: delivery_store_def demo_store_def)

lemma larger_sphere_store_fields:
  "shops larger_sphere_store = [shop_F, shop_G]"
  "sdist larger_sphere_store = scaled_metres 1001"
  "fails larger_sphere_store c = None"
  by (simp_all add: larger_sphere_store_def demo_store_def)


lemma delivery_store_deliverable:
  "response (deliverable_shops delivery_store (Some demo_lat) (Some demo_lon)) =
     Success \<lparr>count = 2, data = [(shop_F, 5), (shop_B, 8)]\<rparr>"
  by (simp add: deliverable_shops_def truthy_num_def run_geo_near_def delivery_store_fields geo_point_def
      demo_origin geo_candidates_def within_limit_def deliverable_stages_def geoNear_distance_def
      demo_shops shop_F_def demo_shop_fields demo_distance respond_def round2_def Let_def)









section \<open>Properties of the discovery routes\<close>

text \<open>
  C1 (amended). \<open>/shops/deliverable\<close> answers every origin that passes the presence
  test, is a valid position and whose query the store serves. Its answer holds exactly the
  active and approved shops whose distance is at most their own delivery radius, where the
  distance is the one the store computes, the \<open>distance\<close> field of \<open>$geoNear\<close> in
  kilometres. Each shop comes with that distance rounded to two decimals: a multiple of
  0.01 at most 0.005 away from it. The results are in ascending order of the rounded
  distance.
\<close>

theorem deliverable_shops_admission:
  "(lat \<noteq> 0 \<and> lon \<noteq> 0 \<and> geo_in_bounds (lon, lat) \<and> fails st (GeoNear (Fin lon, Fin lat) None) = None
      \<longrightarrow> (\<exists>body. response (deliverable_shops st (Some lat) (Some lon)) = Success body))
   \<and> (\<forall>body. response (deliverable_shops st (Some lat) (Some lon)) = Success body \<longrightarrow>
        (\<forall>(s, d) \<in> set (data body).
            s \<in> set (shops st) \<and> isActive s \<and> isApproved s \<and>
            geoNear_distance st (lon, lat) s \<le> deliveryRadius s \<and>
            d = round2 (geoNear_distance st (lon, lat) s) \<and>
            (\<exists>k :: int. d = of_int k / 100) \<and>
            \<bar>d - geoNear_distance st (lon, lat) s\<bar> \<le> 1 / 200)
      \<and> (\<forall>s \<in> set (shops st).
            isActive s \<and> isApproved s \<and> geoNear_distance st (lon, lat) s \<le> deliveryRadius s
            \<longrightarrow> (s, round2 (geoNear_distance st (lon, lat) s)) \<in> set (data body))
      \<and> sorted (map snd (data body))
      \<and> count body = length (data body))"
proof (intro conjI impI allI)
  assume "lat \<noteq> 0 \<and> lon \<noteq> 0 \<and> geo_in_bounds (lon, lat) \<and> fails st (GeoNear (Fin lon, Fin lat) None) = None"
  then show "\<exists>body. response (deliverable_shops st (Some lat) (Some lon)) = Success body"
    by (simp add: deliverable_success_iff)
next
  fix body assume "response (deliverable_shops st (Some lat) (Some lon)) = Success body"
  then have b: "data body = deliverable_stages (map (\<lambda>s. (s, geoNear_distance st (lon, lat) s)) (geo_candidates st (lon, lat) None))"
    by (simp add: deliverable_success_iff)
  show "\<forall>(s, d) \<in> set (data body).
            s \<in> set (shops st) \<and> isActive s \<and> isApproved s \<and>
            geoNear_distance st (lon, lat) s \<le> deliveryRadius s \<and>
            d = round2 (geoNear_distance st (lon, lat) s) \<and>
            (\<exists>k :: int. d = of_int k / 100) \<and>
            \<bar>d - geoNear_distance st (lon, lat) s\<bar> \<le> 1 / 200"
  proof (clarify)
    fix s d assume m: "(s, d) \<in> set (data body)"
    let ?g = "geoNear_distance st (lon, lat) s"
    from m have 1: "s \<in> set (shops st)" "isActive s" "isApproved s" "?g \<le> deliveryRadius s"
      and d: "d = round2 ?g"
      unfolding b set_deliverable_stages by (auto simp: set_geo_candidates)
    have 2: "\<exists>k :: int. round2 ?g = of_int k / 100" by (rule round2_grid)
    have 3: "\<bar>round2 ?g - ?g\<bar> \<le> 1 / 200" by (rule round2_close)
    show "s \<in> set (shops st) \<and> isActive s \<and> isApproved s \<and>
            ?g \<le> deliveryRadius s \<and> d = round2 ?g \<and>
            (\<exists>k :: int. d = of_int k / 100) \<and> \<bar>d - ?g\<bar> \<le> 1 / 200"
      unfolding d using 1 2 3 by blast
  qed
next
  fix body assume "response (deliverable_shops st (Some lat) (Some lon)) = Success body"
  then have b: "data body = deliverable_stages (map (\<lambda>s. (s, geoNear_distance st (lon, lat) s)) (geo_candidates st (lon, lat) None))"
    by (simp add: deliverable_success_iff)
  show "\<forall>s \<in> set (shops st).
            isActive s \<and> isApproved s \<and> geoNear_distance st (lon, lat) s \<le> deliveryRadius s
            \<longrightarrow> (s, round2 (geoNear_distance st (lon, lat) s)) \<in> set (data body)"
  proof (intro ballI impI)
    fix s assume s: "s \<in> set (shops st)"
      and a: "isActive s \<and> isApproved s \<and> geoNear_distance st (lon, lat) s \<le> deliveryRadius s"
    have "(s, geoNear_distance st (lon, lat) s) \<in> {(s, d) \<in> set (map (\<lambda>s. (s, geoNear_distance st (lon, lat) s)) (geo_candidates st (lon, lat) None)). d \<le> deliveryRadius s}"
      using s a by (simp add: set_geo_candidates within_limit_def)
    then have "(\<lambda>(s, d). (s, round2 d)) (s, geoNear_distance st (lon, lat) s) \<in> set (data body)"
      unfolding b set_deliverable_stages by (rule imageI)
    then show "(s, round2 (geoNear_distance st (lon, lat) s)) \<in> set (data body)" by simp
  qed
next
  fix body assume "response (deliverable_shops st (Some lat) (Some lon)) = Success body"
  then show "sorted (map snd (data body))"
    by (simp add: deliverable_success_iff sorted_deliverable_stages)
next
  fix body assume "response (deliverable_shops st (Some lat) (Some lon)) = Success body"
  then show "count body = length (data body)"
    by (simp add: deliverable_success_iff)
qed

theorem deliverable_shops_admission_witness:
  "response (deliverable_shops delivery_store (Some demo_lat) (Some demo_lon)) =
     Success \<lparr>count = 2, data = [(shop_F, 5), (shop_B, 8)]\<rparr>
   \<and> geoNear_distance delivery_store (demo_lon, demo_lat) shop_F = 4.999
   \<and> geoNear_distance delivery_store (demo_lon, demo_lat) shop_F \<le> deliveryRadius shop_F
   \<and> round2 (geoNear_distance delivery_store (demo_lon, demo_lat) shop_F) = 5
   \<and> (shop_B, round2 (geoNear_distance delivery_store (demo_lon, demo_lat) shop_B))
        \<in> set [(shop_F, 5), (shop_B, 8)]
   \<and> sorted (map snd [(shop_F, 5 :: real), (shop_B, 8)])"
proof -
  note r = delivery_store_deliverable
  have f: "geoNear_distance delivery_store (demo_lon, demo_lat) shop_F = 4.999"
    by (simp add: geoNear_distance_def delivery_store_fields shop_F_def demo_distance)
  from deliverable_shops_admission[of demo_lat demo_lon delivery_store] r
  have "(\<forall>(s, d) \<in> set [(shop_F, 5 :: real), (shop_B, 8)].
            geoNear_distance delivery_store (demo_lon, demo_lat) s \<le> deliveryRadius s \<and>
            d = round2 (geoNear_distance delivery_store (demo_lon, demo_lat) s))
      \<and> (shop_B \<in> set (shops delivery_store) \<longrightarrow>
            isActive shop_B \<and> isApproved shop_B \<and>
            geoNear_distance delivery_store (demo_lon, demo_lat) shop_B \<le> deliveryRadius shop_B
            \<longrightarrow> (shop_B, round2 (geoNear_distance delivery_store (demo_lon, demo_lat) shop_B))
                  \<in> set [(shop_F, 5), (shop_B, 8)])
      \<and> sorted (map snd [(shop_F, 5 :: real), (shop_B, 8)])"
    by simp
  then show ?thesis using r f
    by (simp add: delivery_store_fields shop_B_def demo_shop_fields geoNear_distance_def demo_distance)
qed


text \<open>
  The claim as stated fails for the distance of \<open>calculateDistance\<close>: on an index whose
  sphere is a thousandth larger, shop F, 4.999 km away by \<open>calculateDistance\<close> and
  delivering 5 km far, is 5.003999 km away for the store and is left out.
\<close>

theorem deliverable_omits_shop_counterexample:
  "response (deliverable_shops larger_sphere_store (Some demo_lat) (Some demo_lon)) =
     Success \<lparr>count = 1, data = [(shop_G, 1)]\<rparr>
   \<and> shops larger_sphere_store = [shop_F, shop_G]
   \<and> isActive shop_F \<and> isApproved shop_F
   \<and> shop_distance demo_lat demo_lon shop_F = 4.999
   \<and> deliveryRadius shop_F = 5
   \<and> shop_F \<noteq> shop_G"
  by (simp add: deliverable_shops_def truthy_num_def run_geo_near_def larger_sphere_store_fields
      geo_point_def demo_origin geo_candidates_def within_limit_def deliverable_stages_def
      geoNear_distance_def shop_F_def shop_G_def demo_shop_fields demo_scaled_distance
      demo_shop_distance respond_def round2_def Let_def)
  (simp add: shop_at_def)







text \<open>
  C4. In \<open>/shops/nearby\<close> the flag \<open>withinDeliveryRadius\<close> of an entry says whether the
  distance \<open>calculateDistance\<close> gives is at most the shop's delivery radius, and it
  admits nothing: the shops returned are all active and approved shops the store finds
  within the search radius. A shop at 12 km that delivers 10 km far is returned for the
  search radius 15, flagged \<open>False\<close>, and is not among the deliverable shops.
\<close>

theorem nearby_flag_is_informational:
  "(\<forall>body. response (nearby_shops st (Some lat) (Some lon) md) = Success body \<longrightarrow>
      (\<forall>e \<in> set (data body).
          withinDeliveryRadius e = (shop_distance lat lon (ne_shop e) \<le> deliveryRadius (ne_shop e)))
      \<and> set (map ne_shop (data body)) =
          {s \<in> set (shops st). isActive s \<and> isApproved s \<and>
                sdist st (lon, lat) (coordinates s) \<le> maxDistanceKm md * 1000})
   \<and> (\<forall>c \<in> set (shops st).
        isActive c \<and> isApproved c \<and> deliveryRadius c = 10 \<and>
        shop_distance lat lon c = 12 \<and> sdist st (lon, lat) (coordinates c) = 12000 \<and>
        lat \<noteq> 0 \<and> lon \<noteq> 0 \<and> geo_in_bounds (lon, lat) \<and>
        fails st (FindNear (Fin lon, Fin lat) (Fin 15000)) = None \<and>
        fails st (GeoNear (Fin lon, Fin lat) None) = None
        \<longrightarrow> (\<exists>nb dl.
               response (nearby_shops st (Some lat) (Some lon) (Some 15)) = Success nb \<and>
               response (deliverable_shops st (Some lat) (Some lon)) = Success dl \<and>
               \<lparr>ne_shop = c, ne_distance = 12, withinDeliveryRadius = False\<rparr> \<in> set (data nb) \<and>
               c \<notin> fst ` set (data dl)))"
proof (intro conjI allI impI ballI)
  fix body e
  assume ok: "response (nearby_shops st (Some lat) (Some lon) md) = Success body" and e: "e \<in> set (data body)"
  from ok have d: "data body = map (with_distance lat lon) (geo_candidates st (lon, lat) (Some (maxDistanceKm md * 1000)))"
    by (simp add: nearby_success_iff)
  from e show "withinDeliveryRadius e = (shop_distance lat lon (ne_shop e) \<le> deliveryRadius (ne_shop e))"
    unfolding d by (auto simp: with_distance_fields)
next
  fix body
  assume ok: "response (nearby_shops st (Some lat) (Some lon) md) = Success body"
  from ok have d: "data body = map (with_distance lat lon) (geo_candidates st (lon, lat) (Some (maxDistanceKm md * 1000)))"
    by (simp add: nearby_success_iff)
  have "map ne_shop (data body) = geo_candidates st (lon, lat) (Some (maxDistanceKm md * 1000))"
    unfolding d by (simp add: comp_def with_distance_fields)
  then show "set (map ne_shop (data body)) =
          {s \<in> set (shops st). isActive s \<and> isApproved s \<and>
                sdist st (lon, lat) (coordinates s) \<le> maxDistanceKm md * 1000}"
    by (simp only: set_geo_candidates within_limit_def option.case)
next
  fix c
  assume c: "c \<in> set (shops st)"
    and h: "isActive c \<and> isApproved c \<and> deliveryRadius c = 10 \<and>
        shop_distance lat lon c = 12 \<and> sdist st (lon, lat) (coordinates c) = 12000 \<and>
        lat \<noteq> 0 \<and> lon \<noteq> 0 \<and> geo_in_bounds (lon, lat) \<and>
        fails st (FindNear (Fin lon, Fin lat) (Fin 15000)) = None \<and>
        fails st (GeoNear (Fin lon, Fin lat) None) = None"
  define nb where "nb = \<lparr>count = length (geo_candidates st (lon, lat) (Some 15000)),
             data = map (with_distance lat lon) (geo_candidates st (lon, lat) (Some 15000))\<rparr>"
  have n: "response (nearby_shops st (Some lat) (Some lon) (Some 15)) = Success nb"
    using h by (simp add: nearby_success_iff maxDistanceKm_simps nb_def)
  from h obtain dl where dl: "response (deliverable_shops st (Some lat) (Some lon)) = Success dl"
    by (auto simp: deliverable_success_iff)
  have "c \<in> set (geo_candidates st (lon, lat) (Some 15000))"
    using c h by (simp add: set_geo_candidates within_limit_def)
  then have "with_distance lat lon c \<in> set (data nb)" by (simp add: nb_def)
  moreover have "with_distance lat lon c = \<lparr>ne_shop = c, ne_distance = 12, withinDeliveryRadius = False\<rparr>"
    using h by (simp add: with_distance_def Let_def toFixed2_def)
  ultimately have inn: "\<lparr>ne_shop = c, ne_distance = 12, withinDeliveryRadius = False\<rparr> \<in> set (data nb)" by simp
  have out: "c \<notin> fst ` set (data dl)"
  proof
    assume "c \<in> fst ` set (data dl)"
    then obtain d where "(c, d) \<in> set (data dl)" by auto
    from deliverable_data_bound[OF dl this] h show False by (simp add: geoNear_distance_def)
  qed
  from n dl inn out
  show "\<exists>nb dl.
               response (nearby_shops st (Some lat) (Some lon) (Some 15)) = Success nb \<and>
               response (deliverable_shops st (Some lat) (Some lon)) = Success dl \<and>
               \<lparr>ne_shop = c, ne_distance = 12, withinDeliveryRadius = False\<rparr> \<in> set (data nb) \<and>
               c \<notin> fst ` set (data dl)" by blast
qed

theorem nearby_flag_is_informational_witness:
  "response (nearby_shops demo_store (Some demo_lat) (Some demo_lon) (Some 15)) =
     Success \<lparr>count = 4,
              data = [\<lparr>ne_shop = shop_A, ne_distance = 3.2, withinDeliveryRadius = True\<rparr>,
                      \<lparr>ne_shop = shop_D, ne_distance = 5, withinDeliveryRadius = False\<rparr>,
                      \<lparr>ne_shop = shop_B, ne_distance = 8, withinDeliveryRadius = True\<rparr>,
                      \<lparr>ne_shop = shop_C, ne_distance = 12, withinDeliveryRadius = False\<rparr>]\<rparr>
   \<and> response (deliverable_shops demo_store (Some demo_lat) (Some demo_lon)) =
       Success \<lparr>count = 2, data = [(shop_A, 3.2), (shop_B, 8)]\<rparr>
   \<and> shop_distance demo_lat demo_lon shop_C = 12 \<and> deliveryRadius shop_C = 10
   \<and> shop_C \<notin> fst ` set [(shop_A, 3.2 :: real), (shop_B, 8)]"
proof -
  have c: "shop_C \<in> set (shops demo_store)" by (simp add: demo_store_fields)
  have h: "isActive shop_C \<and> isApproved shop_C \<and> deliveryRadius shop_C = 10 \<and>
        shop_distance demo_lat demo_lon shop_C = 12 \<and>
        sdist demo_store (demo_lon, demo_lat) (coordinates shop_C) = 12000 \<and>
        demo_lat \<noteq> 0 \<and> demo_lon \<noteq> 0 \<and> geo_in_bounds (demo_lon, demo_lat) \<and>
        fails demo_store (FindNear (Fin demo_lon, Fin demo_lat) (Fin 15000)) = None \<and>
        fails demo_store (GeoNear (Fin demo_lon, Fin demo_lat) None) = None"
    by (simp add: shop_C_def demo_shop_fields demo_shop_distance demo_store_fields demo_distance demo_origin)
  from nearby_flag_is_informational[of demo_store demo_lat demo_lon None] c h
  obtain nb dl where
    "response (nearby_shops demo_store (Some demo_lat) (Some demo_lon) (Some 15)) = Success nb"
    "response (deliverable_shops demo_store (Some demo_lat) (Some demo_lon)) = Success dl"
    "shop_C \<notin> fst ` set (data dl)"
    by blast
  then show ?thesis using h by (simp add: demo_nearby_15 demo_deliverable respond_def demo_shops_distinct)
qed


text \<open>
  C10. The flag compares the unrounded distance with the delivery radius, the reported
  distance is the rounded one. Shop D, 5.004 km away and delivering 5 km far, is reported
  at distance 5, which is within its radius, and flagged \<open>False\<close>.
\<close>

theorem nearby_flag_uses_unrounded_distance:
  "(\<forall>body. response (nearby_shops st (Some lat) (Some lon) md) = Success body \<longrightarrow>
      (\<forall>e \<in> set (data body).
          withinDeliveryRadius e = (shop_distance lat lon (ne_shop e) \<le> deliveryRadius (ne_shop e)) \<and>
          ne_distance e = toFixed2 (shop_distance lat lon (ne_shop e))))
   \<and> shop_distance demo_lat demo_lon shop_D = 5.004
   \<and> deliveryRadius shop_D = 5
   \<and> response (nearby_shops demo_store (Some demo_lat) (Some demo_lon) None) =
       Success \<lparr>count = 3,
                data = [\<lparr>ne_shop = shop_A, ne_distance = 3.2, withinDeliveryRadius = True\<rparr>,
                        \<lparr>ne_shop = shop_D, ne_distance = 5, withinDeliveryRadius = False\<rparr>,
                        \<lparr>ne_shop = shop_B, ne_distance = 8, withinDeliveryRadius = True\<rparr>]\<rparr>"
proof (intro conjI allI impI ballI)
  fix body e
  assume ok: "response (nearby_shops st (Some lat) (Some lon) md) = Success body" and e: "e \<in> set (data body)"
  from ok have d: "data body = map (with_distance lat lon) (geo_candidates st (lon, lat) (Some (maxDistanceKm md * 1000)))"
    by (simp add: nearby_success_iff)
  from e show "withinDeliveryRadius e = (shop_distance lat lon (ne_shop e) \<le> deliveryRadius (ne_shop e))"
    unfolding d by (auto simp: with_distance_fields)
  from e show "ne_distance e = toFixed2 (shop_distance lat lon (ne_shop e))"
    unfolding d by (auto simp: with_distance_fields)
next
  show "shop_distance demo_lat demo_lon shop_D = 5.004"
    by (simp add: shop_D_def demo_shop_distance)
  show "deliveryRadius shop_D = 5" by (simp add: shop_D_def demo_shop_fields)
  show "response (nearby_shops demo_store (Some demo_lat) (Some demo_lon) None) =
       Success \<lparr>count = 3,
                data = [\<lparr>ne_shop = shop_A, ne_distance = 3.2, withinDeliveryRadius = True\<rparr>,
                        \<lparr>ne_shop = shop_D, ne_distance = 5, withinDeliveryRadius = False\<rparr>,
                        \<lparr>ne_shop = shop_B, ne_distance = 8, withinDeliveryRadius = True\<rparr>]\<rparr>"
    by (simp add: demo_nearby_10 respond_def)
qed

theorem nearby_flag_uses_unrounded_distance_witness:
  "withinDeliveryRadius \<lparr>ne_shop = shop_D, ne_distance = 5, withinDeliveryRadius = False\<rparr> =
     (shop_distance demo_lat demo_lon shop_D \<le> deliveryRadius shop_D)
   \<and> ne_distance \<lparr>ne_shop = shop_D, ne_distance = 5, withinDeliveryRadius = False\<rparr> =
       toFixed2 (shop_distance demo_lat demo_lon shop_D)
   \<and> ne_distance \<lparr>ne_shop = shop_D, ne_distance = 5, withinDeliveryRadius = False\<rparr>
       \<le> deliveryRadius shop_D"
proof -
  note t = nearby_flag_uses_unrounded_distance[of demo_store demo_lat demo_lon None]
  let ?e = "\<lparr>ne_shop = shop_D, ne_distance = 5, withinDeliveryRadius = False\<rparr>"
  from t have r: "response (nearby_shops demo_store (Some demo_lat) (Some demo_lon) None) =
       Success \<lparr>count = 3,
                data = [\<lparr>ne_shop = shop_A, ne_distance = 3.2, withinDeliveryRadius = True\<rparr>, ?e,
                        \<lparr>ne_shop = shop_B, ne_distance = 8, withinDeliveryRadius = True\<rparr>]\<rparr>"
    and rad: "deliveryRadius shop_D = 5"
    by blast+
  from t r have "withinDeliveryRadius ?e = (shop_distance demo_lat demo_lon (ne_shop ?e) \<le> deliveryRadius (ne_shop ?e))
      \<and> ne_distance ?e = toFixed2 (shop_distance demo_lat demo_lon (ne_shop ?e))"
    by simp
  then show ?thesis using rad by simp
qed


text \<open>
  C2. Latitude 95 and longitude -200 pass the presence test, the only test the three
  discovery routes make: each route sends its query to the store, and the failure it
  reports is the store's.
\<close>

theorem discovery_out_of_range_reaches_store:
  "nearby_shops demo_store (Some 95) (Some (- 200)) None =
     respond [FindNear (Fin (- 200), Fin 95) (Fin 10000)]
       (Failure 500 ''Server error'' (Some invalid_geo_query))
   \<and> deliverable_shops demo_store (Some 95) (Some (- 200)) =
     respond [GeoNear (Fin (- 200), Fin 95) None]
       (Failure 500 ''Server error'' (Some invalid_geo_query))
   \<and> radius_shops demo_store (Some ''95'') (Some ''-200'') None =
     respond [GeoNear (Fin (- 200), Fin 95) (Some (Fin 5000))]
       (Failure 500 ''Server error'' (Some invalid_geo_query))"
proof (intro conjI)
  show "nearby_shops demo_store (Some 95) (Some (- 200)) None =
     respond [FindNear (Fin (- 200), Fin 95) (Fin 10000)]
       (Failure 500 ''Server error'' (Some invalid_geo_query))"
    by (simp add: nearby_shops_def truthy_num_def maxDistanceKm_simps run_find_near_def
        demo_store_fields geo_point_def geo_in_bounds_def)
  show "deliverable_shops demo_store (Some 95) (Some (- 200)) =
     respond [GeoNear (Fin (- 200), Fin 95) None]
       (Failure 500 ''Server error'' (Some invalid_geo_query))"
    by (simp add: deliverable_shops_def truthy_num_def run_geo_near_def
        demo_store_fields geo_point_def geo_in_bounds_def)
  have p: "parseFloat_param (Some ''95'') = Fin 95" "parseFloat_param (Some ''-200'') = Fin (- 200)"
    "parseFloat_param None = NaN"
    by (simp_all add: parse_defs)
  show "radius_shops demo_store (Some ''95'') (Some ''-200'') None =
     respond [GeoNear (Fin (- 200), Fin 95) (Some (Fin 5000))]
       (Failure 500 ''Server error'' (Some invalid_geo_query))"
    by (simp add: radius_shops_def truthy_str_def truthy_jsnum_def p jsnum_scale_def run_geo_near_def
        demo_store_fields geo_point_def geo_in_bounds_def)
qed


theorem discovery_out_of_range_reaches_store_witness:
  "calls (nearby_shops demo_store (Some 95) (Some (- 200)) None) =
     [FindNear (Fin (- 200), Fin 95) (Fin 10000)]
   \<and> calls (deliverable_shops demo_store (Some 95) (Some (- 200))) =
     [GeoNear (Fin (- 200), Fin 95) None]
   \<and> calls (radius_shops demo_store (Some ''95'') (Some ''-200'') None) =
     [GeoNear (Fin (- 200), Fin 95) (Some (Fin 5000))]"
  using discovery_out_of_range_reaches_store by (simp add: respond_def)

text \<open>
  C5. \<open>/shop/location\<close> with the delivery radius 0 and every other field valid: the
  presence test takes 0 for a missing field, before the range test is reached.
\<close>

theorem save_location_rejects_zero_radius:
  "save_shop_location demo_store (Some ''A'') (Some demo_lat) (Some demo_lon) (Some 0) =
     (respond [] (Failure 400 ''Missing required fields'' None), demo_store)"
  by (simp add: save_shop_location_def truthy_num_def)


theorem save_location_rejects_zero_radius_witness:
  "response (fst (save_shop_location demo_store (Some ''A'') (Some demo_lat) (Some demo_lon) (Some 0))) =
     Failure 400 ''Missing required fields'' None
   \<and> calls (fst (save_shop_location demo_store (Some ''A'') (Some demo_lat) (Some demo_lon) (Some 0))) = []
   \<and> snd (save_shop_location demo_store (Some ''A'') (Some demo_lat) (Some demo_lon) (Some 0)) = demo_store"
  using save_location_rejects_zero_radius by (simp add: respond_def)

text \<open>
  C9 (amended). \<open>/shops/nearby\<close> and \<open>/shops/deliverable\<close> take their coordinates from
  the JSON body and reject a latitude or longitude that is the number 0 as missing,
  without a store call. \<open>/shops/radius\<close> takes them from the query string and rejects
  exactly an absent or empty parameter.
\<close>

theorem zero_coordinate_presence_test:
  "(lat = 0 \<or> lon = 0 \<longrightarrow>
      nearby_shops st (Some lat) (Some lon) md = respond [] missing_coordinates \<and>
      deliverable_shops st (Some lat) (Some lon) = respond [] missing_coordinates)
   \<and> (radius_shops st latitude longitude radius = respond [] missing_coordinates
        \<longleftrightarrow> latitude = None \<or> latitude = Some [] \<or> longitude = None \<or> longitude = Some [])"
proof (intro conjI impI)
  assume "lat = 0 \<or> lon = 0"
  then show "nearby_shops st (Some lat) (Some lon) md = respond [] missing_coordinates"
    by (auto simp: nearby_shops_def truthy_num_def)
next
  assume "lat = 0 \<or> lon = 0"
  then show "deliverable_shops st (Some lat) (Some lon) = respond [] missing_coordinates"
    by (auto simp: deliverable_shops_def truthy_num_def)
next
  show "radius_shops st latitude longitude radius = respond [] missing_coordinates
        \<longleftrightarrow> latitude = None \<or> latitude = Some [] \<or> longitude = None \<or> longitude = Some []"
    by (auto simp: radius_shops_def truthy_str_def respond_def Let_def split: option.splits sum.splits)
qed

theorem zero_coordinate_presence_test_witness:
  "nearby_shops demo_store (Some 0) (Some demo_lon) None = respond [] missing_coordinates
   \<and> deliverable_shops demo_store (Some demo_lat) (Some 0) = respond [] missing_coordinates
   \<and> radius_shops demo_store (Some []) (Some ''77.5946'') None = respond [] missing_coordinates
   \<and> radius_shops demo_store (Some ''0'') (Some ''77.5946'') None \<noteq> respond [] missing_coordinates"
  using zero_coordinate_presence_test[of 0 demo_lon demo_store None "Some []" "Some ''77.5946''" None]
    zero_coordinate_presence_test[of demo_lat 0 demo_store None "Some ''0''" "Some ''77.5946''" None]
  by simp


text \<open>
  The claim as stated fails for \<open>/shops/radius\<close>: latitude 0 arrives as the string
  \<open>0\<close>, which is not empty, and the route queries the store.
\<close>

theorem radius_zero_latitude_counterexample:
  "radius_shops demo_store (Some ''0'') (Some ''77.5946'') None =
     respond [GeoNear (Fin demo_lon, Fin 0) (Some (Fin 5000))]
       (Success \<lparr>count = 0, data = [], searchRadius = Fin 5\<rparr>)
   \<and> response (radius_shops demo_store (Some ''0'') (Some ''77.5946'') None) \<noteq> missing_coordinates"
proof -
  have p: "parseFloat_param (Some ''0'') = Fin 0" "parseFloat_param (Some ''77.5946'') = Fin demo_lon"
    "parseFloat_param None = NaN"
    by (simp_all add: parse_defs demo_lon_def)
  have b: "geo_in_bounds (demo_lon, 0)" by (simp add: geo_in_bounds_def demo_lon_def)
  have far: "\<not> haversine_metres (demo_lon, 0) (coordinates s) \<le> 5000"
    if "s \<in> set (shops demo_store)" for s
    using that demo_equator_distance[of "3.2"] demo_equator_distance[of 8] demo_equator_distance[of 12]
      demo_equator_distance[of "5.004"] demo_equator_distance[of 1]
    by (auto simp: demo_store_fields demo_shops not_le)
  have c: "geo_candidates demo_store (demo_lon, 0) (Some 5000) = []"
    using far by (auto simp: geo_candidates_def filter_empty_conv within_limit_def demo_store_fields(2))
  show ?thesis
    by (simp add: radius_shops_def truthy_str_def truthy_jsnum_def p jsnum_scale_def respond_def
        missing_coordinates_def Let_def run_geo_near_def demo_store_fields geo_point_def b geo_limit_def c
        radius_stages_def)
qed


section \<open>Properties of the dashboard routes\<close>




text \<open>
  C7 (amended). With the shop found: if any of the eight queries of \<open>/summary/:ownerId\<close>
  fails, the response is the failure \<open>Failed to load dashboard summary\<close> with the error
  message of a failed query and nothing else; if none fails and the shop has no orders,
  the response is a success whose order counts and today's revenue are all 0.
\<close>

theorem dashboard_summary_all_or_nothing:
  "(oid \<noteq> [] \<and> fails st (FindShopByOwner oid) = None \<and> find_shop_by_owner st oid = Some sh \<longrightarrow>
      ((\<exists>c \<in> set (summary_calls (shop_id sh) todayStart). fails st c \<noteq> None) \<longrightarrow>
         (\<exists>c \<in> set (summary_calls (shop_id sh) todayStart). \<exists>e.
             fails st c = Some e \<and>
             response (dashboard_summary st todayStart oid) =
               Failure 500 ''Failed to load dashboard summary'' (Some e)))
      \<and> ((\<forall>c \<in> set (summary_calls (shop_id sh) todayStart). fails st c = None) \<and>
          (\<forall>od \<in> set (orders st). o_shopId od \<noteq> shop_id sh) \<longrightarrow>
         (\<exists>body. response (dashboard_summary st todayStart oid) = Success body \<and>
             orders_total body = 0 \<and> orders_pending body = 0 \<and> orders_accepted body = 0 \<and>
             orders_completed body = 0 \<and> today_orders body = 0 \<and> today_revenue body = 0 \<and>
             revenue_today body = 0)))"
proof (intro impI conjI)
  assume a: "oid \<noteq> [] \<and> fails st (FindShopByOwner oid) = None \<and> find_shop_by_owner st oid = Some sh"
    and b: "\<exists>c \<in> set (summary_calls (shop_id sh) todayStart). fails st c \<noteq> None"
  from b have "\<not> (\<exists>body. summary_join st sh todayStart = Inr body)"
    by (simp add: summary_join_Inr_iff)
  then obtain e where e: "summary_join st sh todayStart = Inl e"
    by (cases "summary_join st sh todayStart") auto
  from summary_join_Inl[OF e] obtain c where
    "c \<in> set (summary_calls (shop_id sh) todayStart)" "fails st c = Some e" by blast
  moreover have "response (dashboard_summary st todayStart oid) =
               Failure 500 ''Failed to load dashboard summary'' (Some e)"
    using a e by (simp add: dashboard_summary_def respond_def summary_failed_def)
  ultimately show "\<exists>c \<in> set (summary_calls (shop_id sh) todayStart). \<exists>e.
             fails st c = Some e \<and>
             response (dashboard_summary st todayStart oid) =
               Failure 500 ''Failed to load dashboard summary'' (Some e)" by blast
next
  assume a: "oid \<noteq> [] \<and> fails st (FindShopByOwner oid) = None \<and> find_shop_by_owner st oid = Some sh"
    and b: "(\<forall>c \<in> set (summary_calls (shop_id sh) todayStart). fails st c = None) \<and>
          (\<forall>od \<in> set (orders st). o_shopId od \<noteq> shop_id sh)"
  from b obtain body where body: "summary_join st sh todayStart = Inr body"
    using summary_join_Inr_iff[of st sh todayStart] by blast
  have "response (dashboard_summary st todayStart oid) = Success body"
    using a body by (simp add: dashboard_summary_def respond_def)
  with summary_join_no_orders[OF body] b
  show "\<exists>body. response (dashboard_summary st todayStart oid) = Success body \<and>
             orders_total body = 0 \<and> orders_pending body = 0 \<and> orders_accepted body = 0 \<and>
             orders_completed body = 0 \<and> today_orders body = 0 \<and> today_revenue body = 0 \<and>
             revenue_today body = 0" by blast
qed

theorem dashboard_summary_all_or_nothing_witness:
  "response (dashboard_summary demo_store 1730592000000 ''owner-c'') =
     Success \<lparr>sum_shop_id = ''C'', sum_shop_name = ''C'', sum_isOpen = True, sum_isActive = True,
              products_total = 0, products_available = 0, products_unavailable = 0,
              orders_total = 0, orders_pending = 0, orders_accepted = 0, orders_completed = 0,
              revenue_total = 0, revenue_today = 0, today_orders = 0, today_revenue = 0\<rparr>
   \<and> fails (demo_store\<lparr>fails := failing (CountOrders ''C'' (Some ''Pending'') None) ''timeout''\<rparr>)
        (CountOrders ''C'' (Some ''Pending'') None) = Some ''timeout''
   \<and> (\<exists>e. response (dashboard_summary
              (demo_store\<lparr>fails := failing (CountOrders ''C'' (Some ''Pending'') None) ''timeout''\<rparr>)
              1730592000000 ''owner-c'') =
            Failure 500 ''Failed to load dashboard summary'' (Some e))"
proof -
  let ?bad = "demo_store\<lparr>fails := failing (CountOrders ''C'' (Some ''Pending'') None) ''timeout''\<rparr>"
  have a: "''owner-c'' \<noteq> [] \<and> fails ?bad (FindShopByOwner ''owner-c'') = None \<and>
           find_shop_by_owner ?bad ''owner-c'' = Some shop_C"
    by (simp add: demo_owner_c failing_def)
  have b: "\<exists>c \<in> set (summary_calls (shop_id shop_C) 1730592000000). fails ?bad c \<noteq> None"
    by (simp add: summary_calls_def demo_shop_C failing_def)
  from dashboard_summary_all_or_nothing[of "''owner-c''" ?bad shop_C 1730592000000] a b
  have "\<exists>e. response (dashboard_summary ?bad 1730592000000 ''owner-c'') =
            Failure 500 ''Failed to load dashboard summary'' (Some e)"
    by blast
  then show ?thesis by (simp add: demo_summary_C failing_def)
qed


text \<open>
  The claim as stated fails where it says the failure identifies the failed facet: the
  product count failing and the completed-order count failing, with the same store error,
  give the same response.
\<close>

theorem summary_failure_hides_facet_counterexample:
  "response (dashboard_summary (demo_store\<lparr>fails := failing (CountProducts ''C'' None) ''timeout''\<rparr>)
      1730592000000 ''owner-c'') =
     Failure 500 ''Failed to load dashboard summary'' (Some ''timeout'')
   \<and> response (dashboard_summary
        (demo_store\<lparr>fails := failing (CountOrders ''C'' (Some ''Completed'') None) ''timeout''\<rparr>)
        1730592000000 ''owner-c'') =
     Failure 500 ''Failed to load dashboard summary'' (Some ''timeout'')
   \<and> CountProducts ''C'' None \<noteq> CountOrders ''C'' (Some ''Completed'') None"
  by (simp add: demo_summary_failing summary_calls_def)


end
